theory Spec2Isabelle
  imports Complex_Main
begin

section \<open>Order lifecycle, stock and payment reconciliation of the storefront\<close>

text \<open>
  The development embeds the Order model (its schema's validators and defaults, the
  schema methods \<open>addTimelineEntry\<close>, \<open>updateStatus\<close>, \<open>calculateTotals\<close>), the order
  routes (create, cancel, status update, quick buy) and the payment webhook handlers.

  Conventions of the embedding.
  \<^item> Document identifiers (ObjectIds) and timestamps (\<open>new Date()\<close>) are natural
    numbers; the current time and a newly generated identifier are arguments.
  \<^item> A JavaScript Number holding a count (stock, line quantity) is an \<open>int\<close>; one
    holding money is an exact rational \<open>rat\<close>. \<open>Math.round x\<close> is
    \<open>\<lfloor>x + 1/2\<rfloor>\<close>. Binary floating point rounding is outside the model.
  \<^item> The persistence library is not part of the sources. Its calls are modelled by
    what their arguments and the schema say.
    \<open>create\<close> builds a document from the given data, without the fields the schema does
    not declare and with the schema's defaults for the paths the data leaves out,
    validates it against the schema's \<open>required\<close> and \<open>min\<close> rules and throws when one
    of them fails; validation comes before the schema's own \<open>pre('save')\<close> hook, so a
    value that hook would supply is still missing when the document is validated.
    \<open>save\<close> writes a loaded document back; the validation it runs on a document that
    was stored before is not modelled. A \<open>save\<close> that is called while an earlier
    \<open>save\<close> of the same document has not finished is rejected with
    \<open>ParallelSaveError\<close>; the earlier one goes on and writes the document.
    \<open>findByIdAndUpdate\<close> with \<open>$inc\<close> adds to the stored number and touches no other
    path, and runs no \<open>save\<close> hook and no validator; \<open>populate\<close> looks the referenced
    product up.
  \<^item> A handler takes the stored state and returns its response with the new state;
    every early \<open>return sendErrorResponse\<close> is a branch returning the state as it
    was read, and an exception that reaches the handler's outer \<open>catch\<close> is the
    response \<open>ServerError\<close>. The calls of one handler happen in program order and a
    handler, with the writes it has started, runs to its end before the next request
    starts; requests that interleave are outside the model.
\<close>

subsection \<open>Data model\<close>

datatype order_status =
  Pending | Confirmed | Processing | Shipped | Out_for_delivery | Delivered
  | Cancelled | Returned

datatype payment_status =
  PayPending | PayCompleted | PayFailed | PayRefunded | PayPartiallyRefunded

datatype payment_method = Stripe | Razorpay | Paypal | Cod

record product =
  pname :: string
  pprice :: rat
  stock_quantity :: int
  stock_isInStock :: bool
  isActive :: bool

text \<open>
  Modelled from the spec: the Cart model (\<open>models/Cart\<close>) is not among the sources. A
  cart item is a reference to a product, a quantity and the price taken when the item
  was added, as the order route reads them (\<open>cartItem.product\<close>,
  \<open>cartItem.quantity\<close>, \<open>cartItem.price\<close>); a cart is the list of its items.
\<close>

record cart_item =
  ci_product :: nat
  ci_quantity :: int
  ci_price :: rat

type_synonym jsnum = "rat option"

record order_item =
  product :: nat
  quantity :: int
  price :: rat
  totalPrice :: jsnum

record order_summary =
  subtotal :: jsnum
  tax :: jsnum
  shipping :: jsnum
  discount :: jsnum
  total :: jsnum

record payment_details =
  pmethod :: payment_method
  transactionId :: "string option"
  paymentIntentId :: "string option"
  pstatus :: payment_status
  paidAt :: "nat option"

record tracking =
  trackingNumber :: "string option"
  carrier :: "string option"
  estimatedDelivery :: "nat option"
  shippedAt :: "nat option"
  deliveredAt :: "nat option"

record timeline_entry =
  status :: order_status
  message :: "string option"
  timestamp :: nat
  updatedBy :: "nat option"

record cancellation =
  reason :: "string option"
  cancelledAt :: "nat option"
  cancelledBy :: "nat option"

record order =
  oid :: nat
  user :: "nat option"
  items :: "order_item list"
  orderSummary :: order_summary
  paymentDetails :: payment_details
  orderStatus :: order_status
  tracking :: tracking
  timeline :: "timeline_entry list"
  cancellation :: cancellation

text \<open>
  Errors: the \<open>Error\<close> thrown by \<open>updateStatus\<close>, the rejection of a parallel
  \<open>save\<close>, and the failure envelopes of the routes, with the values their messages
  interpolate.
  \<^item> \<open>CannotTransition c n\<close>: \<open>Cannot transition from c to n\<close>.
  \<^item> \<open>ParallelSaveError\<close>: the persistence library's rejection of a \<open>save\<close> called
    while another \<open>save\<close> of the same document is pending.
  \<^item> \<open>ValidationFailed\<close>: 400 \<open>Validation failed\<close>.
  \<^item> \<open>CartEmpty\<close>: 400 \<open>Cart is empty\<close>.
  \<^item> \<open>InsufficientStock n q\<close>: 400 \<open>Insufficient stock for n. Available: q\<close>.
  \<^item> \<open>ProductsUnavailable\<close>: 400 \<open>Some products in cart are no longer available\<close>.
  \<^item> \<open>OrderNotFound\<close>: 404 \<open>Order not found\<close>.
  \<^item> \<open>AccessDenied\<close>: 403 \<open>Access denied\<close>.
  \<^item> \<open>CannotCancel c\<close>: 400 \<open>Cannot cancel order with status: c\<close>.
  \<^item> \<open>ProductNotFound\<close>: 404 \<open>Product not found\<close>.
  \<^item> \<open>OutOfStock\<close>: 400 \<open>Product is out of stock or insufficient quantity\<close>.
  \<^item> \<open>InvalidPricing\<close>: 400 \<open>Invalid pricing calculation\<close>.
  \<^item> \<open>ServerError\<close>: 500, the handler's outer \<open>catch\<close>.
\<close>

datatype error =
  CannotTransition order_status order_status
  | ParallelSaveError
  | ValidationFailed
  | CartEmpty
  | InsufficientStock string int
  | ProductsUnavailable
  | OrderNotFound
  | AccessDenied
  | CannotCancel order_status
  | ProductNotFound
  | OutOfStock
  | InvalidPricing
  | ServerError

subsection \<open>Order model methods\<close>

text \<open>\<open>addTimelineEntry\<close>: push the entry, set \<open>orderStatus\<close>, save.\<close>

definition addTimelineEntry ::
  "order_status \<Rightarrow> string option \<Rightarrow> nat option \<Rightarrow> nat \<Rightarrow> order \<Rightarrow> order" where
  "addTimelineEntry st msg byUser now ord =
     ord\<lparr>timeline := timeline ord @
            [\<lparr>status = st, message = msg, timestamp = now, updatedBy = byUser\<rparr>],
         orderStatus := st\<rparr>"

text \<open>The table \<open>statusTransitions\<close> of \<open>updateStatus\<close>.\<close>

fun statusTransitions :: "order_status \<Rightarrow> order_status list" where
  "statusTransitions Pending = [Confirmed, Cancelled]"
| "statusTransitions Confirmed = [Processing, Cancelled]"
| "statusTransitions Processing = [Shipped, Cancelled]"
| "statusTransitions Shipped = [Out_for_delivery, Delivered]"
| "statusTransitions Out_for_delivery = [Delivered]"
| "statusTransitions Delivered = [Returned]"
| "statusTransitions Cancelled = []"
| "statusTransitions Returned = []"

text \<open>
  \<open>updateStatus\<close>. The \<open>throw\<close> comes before the first assignment. On an allowed pair
  the method sets the status and calls \<open>addTimelineEntry\<close>, whose \<open>this.save()\<close> it
  does not await; it writes the timestamps and returns a second \<open>this.save()\<close> of the
  same document. That second \<open>save\<close> finds the first one pending and is rejected with
  \<open>ParallelSaveError\<close>, which is what the caller's \<open>await\<close> gets; the first \<open>save\<close>
  writes the document as the method leaves it.

  The result holds the error of the call (thrown or rejected, \<open>None\<close> when the returned
  promise is fulfilled), the document in memory as the call leaves it, and the document
  written to the store, if one is.
\<close>

record status_result =
  us_error :: "error option"
  us_document :: order
  us_saved :: "order option"

definition updateStatus ::
  "order_status \<Rightarrow> string option \<Rightarrow> nat option \<Rightarrow> nat \<Rightarrow> order \<Rightarrow> status_result" where
  "updateStatus newStatus msg byUser now ord =
     (let allowedTransitions = statusTransitions (orderStatus ord) in
      if newStatus \<notin> set allowedTransitions
      then \<lparr>us_error = Some (CannotTransition (orderStatus ord) newStatus),
            us_document = ord, us_saved = None\<rparr>
      else
        let o1 = ord\<lparr>orderStatus := newStatus\<rparr>;
            o2 = addTimelineEntry newStatus msg byUser now o1;
            o3 = (case newStatus of
                    Shipped \<Rightarrow> o2\<lparr>tracking := (tracking o2)\<lparr>shippedAt := Some now\<rparr>\<rparr>
                  | Delivered \<Rightarrow> o2\<lparr>tracking := (tracking o2)\<lparr>deliveredAt := Some now\<rparr>\<rparr>
                  | Cancelled \<Rightarrow>
                      o2\<lparr>cancellation :=
                           (cancellation o2)\<lparr>cancelledAt := Some now, cancelledBy := byUser\<rparr>\<rparr>
                  | _ \<Rightarrow> o2)
        in \<lparr>us_error = Some ParallelSaveError, us_document = o3, us_saved = Some o3\<rparr>)"

text \<open>
  Arithmetic on Number fields that may be absent: \<open>undefined + x\<close> is \<open>NaN\<close>,
  \<open>NaN\<close> propagates through \<open>+\<close>, \<open>-\<close>, \<open>*\<close> and \<open>Math.round\<close>, and
  \<open>NaN >= 2000\<close> is false. \<open>None\<close> stands for \<open>undefined\<close> and for \<open>NaN\<close>.
\<close>

definition jsRound :: "rat \<Rightarrow> int" where
  "jsRound x = \<lfloor>x + 1 / 2\<rfloor>"

definition jsAdd :: "jsnum \<Rightarrow> jsnum \<Rightarrow> jsnum" where
  "jsAdd a b = (case (a, b) of (Some x, Some y) \<Rightarrow> Some (x + y) | _ \<Rightarrow> None)"

definition jsSub :: "jsnum \<Rightarrow> jsnum \<Rightarrow> jsnum" where
  "jsSub a b = (case (a, b) of (Some x, Some y) \<Rightarrow> Some (x - y) | _ \<Rightarrow> None)"

definition sumTotalPrice :: "order_item list \<Rightarrow> jsnum" where
  "sumTotalPrice its = foldl (\<lambda>acc item. jsAdd acc (totalPrice item)) (Some 0) its"

definition taxOf :: "jsnum \<Rightarrow> jsnum" where
  "taxOf sub = map_option (\<lambda>x. of_int (jsRound (x * (18 / 100)))) sub"

definition shippingOf :: "jsnum \<Rightarrow> jsnum" where
  "shippingOf sub =
     (case sub of None \<Rightarrow> Some 200 | Some x \<Rightarrow> if x \<ge> 2000 then Some 0 else Some 200)"

text \<open>\<open>calculateTotals\<close>.\<close>

definition calculateTotals :: "order \<Rightarrow> order" where
  "calculateTotals ord =
     (let sub = sumTotalPrice (items ord);
          tx = taxOf sub;
          sh = shippingOf sub;
          tot = jsSub (jsAdd (jsAdd sub tx) sh) (discount (orderSummary ord))
      in ord\<lparr>orderSummary :=
               (orderSummary ord)\<lparr>subtotal := sub, tax := tx, shipping := sh, total := tot\<rparr>\<rparr>)"

subsection \<open>The stored state\<close>

record state =
  products :: "nat \<rightharpoonup> product"
  carts :: "nat \<rightharpoonup> cart_item list"
  orders :: "order list"

datatype 'a response = Failure error | Success 'a

text \<open>
  \<open>findOne\<close>/\<open>findById\<close> is \<open>find\<close> on the collection; \<open>save\<close> of the document it
  loaded writes the changed document back in its place.
\<close>

fun saveFirst :: "('a \<Rightarrow> bool) \<Rightarrow> 'a \<Rightarrow> 'a list \<Rightarrow> 'a list" where
  "saveFirst P d [] = []"
| "saveFirst P d (x # xs) = (if P x then d # xs else x # saveFirst P d xs)"

text \<open>\<open>Product.findByIdAndUpdate(id, { $inc: { 'stock.quantity': d } })\<close>.\<close>

definition incStock :: "nat \<Rightarrow> int \<Rightarrow> (nat \<rightharpoonup> product) \<Rightarrow> (nat \<rightharpoonup> product)" where
  "incStock pid d ps =
     (case ps pid of
        None \<Rightarrow> ps
      | Some p \<Rightarrow> ps(pid \<mapsto> p\<lparr>stock_quantity := stock_quantity p + d\<rparr>))"

text \<open>\<open>a || b\<close> on an optional string: \<open>undefined\<close> and the empty string are falsy.\<close>

definition orDefault :: "string option \<Rightarrow> string \<Rightarrow> string" where
  "orDefault a b = (case a of None \<Rightarrow> b | Some t \<Rightarrow> if t = [] then b else t)"

subsection \<open>Order.create\<close>

text \<open>
  The data handed to \<open>Order.create\<close>, read through the schema: the paths of the schema
  that this development follows, each given or absent (\<open>None\<close>). Properties of the data
  that are not paths of the schema are dropped by the library and have no field here.
\<close>

record order_data =
  od_orderNumber :: "string option"
  od_user :: "nat option"
  od_items :: "order_item list"
  od_orderSummary :: order_summary
  od_method :: payment_method

text \<open>
  The validators of the schema. \<open>required: true, min: [0, ...]\<close> on a Number: the value
  is given and not below 0. \<open>default: 0, min: [0, ...]\<close>: an absent value takes the
  default, a given one is not below 0. \<open>required: true\<close> on a String: given and not
  empty.
\<close>

definition requiredMin0 :: "jsnum \<Rightarrow> bool" where
  "requiredMin0 x = (case x of None \<Rightarrow> False | Some v \<Rightarrow> 0 \<le> v)"

definition optionalMin0 :: "jsnum \<Rightarrow> bool" where
  "optionalMin0 x = (case x of None \<Rightarrow> True | Some v \<Rightarrow> 0 \<le> v)"

definition withDefault0 :: "jsnum \<Rightarrow> jsnum" where
  "withDefault0 x = (case x of None \<Rightarrow> Some 0 | Some v \<Rightarrow> Some v)"

text \<open>
  \<open>orderItemSchema\<close>: \<open>quantity\<close> at least 1, \<open>price\<close> at least 0, \<open>totalPrice\<close>
  required and at least 0. (\<open>product\<close>, \<open>quantity\<close> and \<open>price\<close> are given by both
  callers; the required \<open>productSnapshot.name\<close> is not modelled.)
\<close>

definition itemValid :: "order_item \<Rightarrow> bool" where
  "itemValid item \<longleftrightarrow>
     1 \<le> quantity item \<and> 0 \<le> price item \<and> requiredMin0 (totalPrice item)"

text \<open>
  \<open>orderSchema\<close>: \<open>orderNumber\<close> and \<open>user\<close> required, the items valid,
  \<open>orderSummary.subtotal\<close> and \<open>orderSummary.total\<close> required and at least 0, \<open>tax\<close>,
  \<open>shipping\<close> and \<open>discount\<close> at least 0. (The required paths of \<open>shippingAddress\<close>
  are not modelled: both callers fill them from validated request fields.)
\<close>

definition orderDataValid :: "order_data \<Rightarrow> bool" where
  "orderDataValid data \<longleftrightarrow>
     (case od_orderNumber data of None \<Rightarrow> False | Some n \<Rightarrow> n \<noteq> []) \<and>
     (case od_user data of None \<Rightarrow> False | Some u \<Rightarrow> True) \<and>
     list_all itemValid (od_items data) \<and>
     requiredMin0 (subtotal (od_orderSummary data)) \<and>
     optionalMin0 (tax (od_orderSummary data)) \<and>
     optionalMin0 (shipping (od_orderSummary data)) \<and>
     optionalMin0 (discount (od_orderSummary data)) \<and>
     requiredMin0 (total (od_orderSummary data))"

text \<open>
  \<open>Order.create(orderData)\<close>: \<open>None\<close> when validation fails (the call throws and nothing
  is stored); otherwise the new document, with the schema's defaults: summary numbers
  0, payment status pending, \<open>orderStatus\<close> pending, an empty timeline. The hook that
  would generate a missing \<open>orderNumber\<close> runs after validation, which has failed by
  then.
\<close>

definition orderCreate :: "nat \<Rightarrow> order_data \<Rightarrow> order option" where
  "orderCreate newId data =
     (if \<not> orderDataValid data then None
      else Some
        \<lparr>oid = newId, user = od_user data, items = od_items data,
         orderSummary = (od_orderSummary data)
           \<lparr>tax := withDefault0 (tax (od_orderSummary data)),
            shipping := withDefault0 (shipping (od_orderSummary data)),
            discount := withDefault0 (discount (od_orderSummary data))\<rparr>,
         paymentDetails = \<lparr>pmethod = od_method data, transactionId = None,
                            paymentIntentId = None, pstatus = PayPending, paidAt = None\<rparr>,
         orderStatus = Pending,
         tracking = \<lparr>trackingNumber = None, carrier = None, estimatedDelivery = None,
                      shippedAt = None, deliveredAt = None\<rparr>,
         timeline = [],
         cancellation = \<lparr>reason = None, cancelledAt = None, cancelledBy = None\<rparr>\<rparr>)"

subsection \<open>POST /api/orders\<close>

text \<open>
  The request as the handler reads it: whether the validators left errors
  (\<open>!errors.isEmpty()\<close>), the authenticated user and the payment method.
\<close>

record order_request =
  validationErrors :: bool
  req_user :: nat
  req_method :: payment_method

text \<open>The order item the loop builds from a cart line (the snapshot is not modelled).\<close>

definition orderItemOf :: "cart_item \<Rightarrow> order_item" where
  "orderItemOf cartItem =
     \<lparr>product = ci_product cartItem, quantity = ci_quantity cartItem,
      price = ci_price cartItem,
      totalPrice = Some (ci_price cartItem * of_int (ci_quantity cartItem))\<rparr>"

text \<open>
  The loop over \<open>cart.items\<close>. \<open>allItemsValid = false; break\<close> leaves the loop for the
  test that returns \<open>Some products in cart are no longer available\<close>, so that branch
  is this error; the stock test returns at once.
\<close>

fun validateItems ::
  "(nat \<rightharpoonup> product) \<Rightarrow> cart_item list \<Rightarrow> order_item list \<Rightarrow> error + order_item list" where
  "validateItems ps [] orderItems = Inr orderItems"
| "validateItems ps (cartItem # rest) orderItems =
     (case ps (ci_product cartItem) of
        None \<Rightarrow> Inl ProductsUnavailable
      | Some p \<Rightarrow>
          if \<not> isActive p then Inl ProductsUnavailable
          else if \<not> stock_isInStock p \<or> stock_quantity p < ci_quantity cartItem
          then Inl (InsufficientStock (pname p) (stock_quantity p))
          else validateItems ps rest (orderItems @ [orderItemOf cartItem]))"

text \<open>
  \<open>orderData\<close>: the user, the items and the summary computed from them (discount 0) and
  the payment method. The handler gives no \<open>orderNumber\<close>.
\<close>

definition orderData :: "order_request \<Rightarrow> order_item list \<Rightarrow> order_data" where
  "orderData req orderItems =
     (let sub = sumTotalPrice orderItems;
          tx = taxOf sub;
          sh = shippingOf sub;
          tot = jsAdd (jsAdd sub tx) sh
      in \<lparr>od_orderNumber = None, od_user = Some (req_user req), od_items = orderItems,
          od_orderSummary = \<lparr>subtotal = sub, tax = tx, shipping = sh, discount = Some 0,
                              total = tot\<rparr>,
          od_method = req_method req\<rparr>)"

text \<open>
  The handler up to the call of \<open>Order.create\<close>: the error it returns with, or the cart
  it read and the \<open>orderData\<close> it built.
\<close>

definition prepareOrder ::
  "order_request \<Rightarrow> state \<Rightarrow> error + cart_item list \<times> order_data" where
  "prepareOrder req s =
     (if validationErrors req then Inl ValidationFailed
      else case carts s (req_user req) of
        None \<Rightarrow> Inl CartEmpty
      | Some cartItems \<Rightarrow>
          if cartItems = [] then Inl CartEmpty
          else case validateItems (products s) cartItems [] of
            Inl e \<Rightarrow> Inl e
          | Inr orderItems \<Rightarrow> Inr (cartItems, orderData req orderItems))"

text \<open>The loop \<open>Update product stock\<close>: one \<open>$inc\<close> by \<open>-cartItem.quantity\<close> per cart line.\<close>

fun decrementStock :: "cart_item list \<Rightarrow> (nat \<rightharpoonup> product) \<Rightarrow> (nat \<rightharpoonup> product)" where
  "decrementStock [] ps = ps"
| "decrementStock (cartItem # rest) ps =
     decrementStock rest (incStock (ci_product cartItem) (- ci_quantity cartItem) ps)"

text \<open>
  The handler after \<open>Order.create\<close> has returned the document \<open>created\<close>: push the
  initial timeline entry, save, take the stock off, clear the cart, answer 201.
\<close>

definition storeCreated ::
  "order_request \<Rightarrow> nat \<Rightarrow> cart_item list \<Rightarrow> order \<Rightarrow> state \<Rightarrow> order response \<times> state" where
  "storeCreated req now cartItems created s =
     (let ord = created\<lparr>timeline := timeline created @
                  [\<lparr>status = Pending, message = Some ''Order placed successfully'',
                    timestamp = now, updatedBy = Some (req_user req)\<rparr>]\<rparr>
      in (Success ord,
          s\<lparr>orders := orders s @ [ord],
            products := decrementStock cartItems (products s),
            carts := (carts s)(req_user req \<mapsto> [])\<rparr>))"

text \<open>
  The handler. \<open>Order.create\<close> throwing is caught by the outer \<open>catch\<close>, which answers
  500 \<open>Error creating order\<close>; nothing has been written by then.
\<close>

definition createOrder :: "order_request \<Rightarrow> nat \<Rightarrow> nat \<Rightarrow> state \<Rightarrow> order response \<times> state" where
  "createOrder req newId now s =
     (case prepareOrder req s of
        Inl e \<Rightarrow> (Failure e, s)
      | Inr (cartItems, data) \<Rightarrow>
          (case orderCreate newId data of
             None \<Rightarrow> (Failure ServerError, s)
           | Some created \<Rightarrow> storeCreated req now cartItems created s))"

subsection \<open>PUT /api/orders/:id/cancel\<close>

text \<open>The loop \<open>Restore product stock\<close>: one \<open>$inc\<close> by \<open>item.quantity\<close> per order line.\<close>

fun restoreStock :: "order_item list \<Rightarrow> (nat \<rightharpoonup> product) \<Rightarrow> (nat \<rightharpoonup> product)" where
  "restoreStock [] ps = ps"
| "restoreStock (item # rest) ps =
     restoreStock rest (incStock (product item) (quantity item) ps)"

text \<open>
  The handler does not read \<open>validationResult\<close>. An order without \<open>user\<close> makes
  \<open>order.user.toString()\<close> throw, which the outer \<open>catch\<close> answers with 500.
\<close>

definition cancelOrder ::
  "nat \<Rightarrow> nat \<Rightarrow> string option \<Rightarrow> nat \<Rightarrow> state \<Rightarrow> order response \<times> state" where
  "cancelOrder reqUser orderId rsn now s =
     (case find (\<lambda>x. oid x = orderId) (orders s) of
        None \<Rightarrow> (Failure OrderNotFound, s)
      | Some ord \<Rightarrow>
          (case user ord of
             None \<Rightarrow> (Failure ServerError, s)
           | Some u \<Rightarrow>
               if u \<noteq> reqUser then (Failure AccessDenied, s)
               else if orderStatus ord \<notin> set [Pending, Confirmed]
               then (Failure (CannotCancel (orderStatus ord)), s)
               else
                 let ord' = ord\<lparr>orderStatus := Cancelled,
                              cancellation :=
                                \<lparr>reason = Some (orDefault rsn ''Cancelled by customer''),
                                 cancelledAt = Some now, cancelledBy = Some reqUser\<rparr>,
                              timeline := timeline ord @
                                [\<lparr>status = Cancelled,
                                  message = Some (orDefault rsn ''Order cancelled by customer''),
                                  timestamp = now, updatedBy = Some reqUser\<rparr>]\<rparr>
                 in (Success ord',
                     s\<lparr>orders := saveFirst (\<lambda>x. oid x = orderId) ord' (orders s),
                       products := restoreStock (items ord) (products s)\<rparr>)))"

subsection \<open>PUT /api/orders/:id/status\<close>

record status_request =
  sr_validationErrors :: bool
  sr_user :: nat
  sr_status :: order_status
  sr_message :: "string option"
  sr_trackingNumber :: "string option"
  sr_carrier :: "string option"
  sr_estimatedDelivery :: "nat option"

text \<open>\<open>if (x) order.tracking.f = x\<close>: an absent or empty value leaves the field.\<close>

definition setIfGiven :: "string option \<Rightarrow> string option \<Rightarrow> string option" where
  "setIfGiven x old = (case x of None \<Rightarrow> old | Some t \<Rightarrow> if t = [] then old else Some t)"

text \<open>
  The handler awaits \<open>order.updateStatus(...)\<close> inside an inner \<open>try\<close>: an error thrown
  by the method or the rejection of its promise is answered with 400 and the error's
  message. The \<open>save\<close> that \<open>updateStatus\<close> has started writes its document whatever the
  answer is. The tracking fields, the handler's own \<open>save\<close> and the 200 answer come
  only after an \<open>updateStatus\<close> without error.
\<close>

definition updateOrderStatus ::
  "status_request \<Rightarrow> nat \<Rightarrow> nat \<Rightarrow> state \<Rightarrow> order response \<times> state" where
  "updateOrderStatus req orderId now s =
     (if sr_validationErrors req then (Failure ValidationFailed, s)
      else case find (\<lambda>x. oid x = orderId) (orders s) of
        None \<Rightarrow> (Failure OrderNotFound, s)
      | Some ord \<Rightarrow>
          let r = updateStatus (sr_status req) (sr_message req) (Some (sr_user req)) now ord;
              s1 = (case us_saved r of
                      None \<Rightarrow> s
                    | Some d \<Rightarrow> s\<lparr>orders := saveFirst (\<lambda>x. oid x = orderId) d (orders s)\<rparr>)
          in case us_error r of
               Some e \<Rightarrow> (Failure e, s1)
             | None \<Rightarrow>
                 let o1 = us_document r;
                     o2 = (if sr_status req = Shipped
                           then o1\<lparr>tracking := (tracking o1)
                                  \<lparr>trackingNumber :=
                                     setIfGiven (sr_trackingNumber req)
                                       (trackingNumber (tracking o1)),
                                   carrier := setIfGiven (sr_carrier req) (carrier (tracking o1)),
                                   estimatedDelivery :=
                                     (case sr_estimatedDelivery req of
                                        None \<Rightarrow> estimatedDelivery (tracking o1)
                                      | Some d \<Rightarrow> Some d)\<rparr>\<rparr>
                           else o1)
                 in (Success o2,
                     s1\<lparr>orders := saveFirst (\<lambda>x. oid x = orderId) o2 (orders s1)\<rparr>))"

subsection \<open>POST /api/orders/quick-buy\<close>

datatype qb_payment = QbCod | QbOnline

record quick_buy_request =
  qb_otherFieldsValid :: bool
  qb_productId :: nat
  qb_productPrice :: rat
  qb_quantity :: int
  qb_paymentMethod :: qb_payment
  qb_subtotal :: rat
  qb_shipping :: rat
  qb_total :: rat

text \<open>
  The validator chain: the numeric validators are written out, the others (names,
  e-mail, address, PIN code) are the flag \<open>qb_otherFieldsValid\<close>.
\<close>

definition quickBuyValid :: "quick_buy_request \<Rightarrow> bool" where
  "quickBuyValid req \<longleftrightarrow>
     qb_otherFieldsValid req \<and> 1 \<le> qb_productId req \<and> 0 \<le> qb_productPrice req \<and>
     1 \<le> qb_quantity req \<and> qb_quantity req \<le> 10 \<and>
     0 \<le> qb_subtotal req \<and> 0 \<le> qb_shipping req \<and> 0 \<le> qb_total req"

text \<open>
  The handler up to the data it builds for \<open>Order.create\<close>: the validators, the product
  lookup, the stock test and the pricing test, each returning its own error; a request
  that passes them goes on with the product read.
\<close>

definition quickBuyChecks :: "quick_buy_request \<Rightarrow> state \<Rightarrow> error + product" where
  "quickBuyChecks req s =
     (if \<not> quickBuyValid req then Inl ValidationFailed
      else case products s (qb_productId req) of
        None \<Rightarrow> Inl ProductNotFound
      | Some productData \<Rightarrow>
          if \<not> stock_isInStock productData \<or> stock_quantity productData < qb_quantity req
          then Inl OutOfStock
          else
            let expectedSubtotal = pprice productData * of_int (qb_quantity req);
                expectedShipping = (if expectedSubtotal \<ge> 5000 then 0 else 199);
                expectedTotal = expectedSubtotal + expectedShipping
            in if \<bar>qb_subtotal req - expectedSubtotal\<bar> > 1 / 100 \<or>
                  \<bar>qb_shipping req - expectedShipping\<bar> > 1 / 100 \<or>
                  \<bar>qb_total req - expectedTotal\<bar> > 1 / 100
               then Inl InvalidPricing
               else Inr productData)"

text \<open>
  \<open>orderData\<close> of the quick-buy handler, read through the schema. It gives
  \<open>orderNumber\<close>, the item's \<open>product\<close>, \<open>price\<close> and \<open>quantity\<close> and the payment
  method. Its \<open>status\<close>, \<open>itemsTotal\<close>, \<open>shippingCost\<close>, \<open>totalAmount\<close> and
  \<open>orderSource\<close> and the item's \<open>name\<close> and \<open>total\<close> are not paths of the schema. It
  gives no \<open>user\<close>, no \<open>totalPrice\<close> (nor a snapshot name) for the item and no
  \<open>orderSummary\<close>.
\<close>

definition quickBuyOrderData ::
  "string \<Rightarrow> nat \<Rightarrow> product \<Rightarrow> int \<Rightarrow> qb_payment \<Rightarrow> order_data" where
  "quickBuyOrderData orderNumber pid productData qty pm =
     \<lparr>od_orderNumber = Some orderNumber, od_user = None,
      od_items = [\<lparr>product = pid, quantity = qty, price = pprice productData,
                   totalPrice = None\<rparr>],
      od_orderSummary = \<lparr>subtotal = None, tax = None, shipping = None, discount = None,
                          total = None\<rparr>,
      od_method = (if pm = QbOnline then Stripe else Cod)\<rparr>"

text \<open>
  The handler; \<open>orderNumber\<close> is the generated \<open>QB...\<close> string. \<open>Order.create\<close> throwing
  is caught by the \<open>catch\<close>, which answers 500 \<open>Error placing quick buy order\<close>. The
  response data of a success: the created order and \<open>orderTotal\<close>, the submitted total.
\<close>

definition quickBuy ::
  "quick_buy_request \<Rightarrow> string \<Rightarrow> nat \<Rightarrow> state \<Rightarrow> (order \<times> rat) response \<times> state" where
  "quickBuy req orderNumber newId s =
     (case quickBuyChecks req s of
        Inl e \<Rightarrow> (Failure e, s)
      | Inr productData \<Rightarrow>
          (case orderCreate newId
                  (quickBuyOrderData orderNumber (qb_productId req) productData
                     (qb_quantity req) (qb_paymentMethod req)) of
             None \<Rightarrow> (Failure ServerError, s)
           | Some ord \<Rightarrow>
               (Success (ord, qb_total req),
                s\<lparr>orders := orders s @ [ord],
                  products := (products s)(qb_productId req \<mapsto>
                     productData\<lparr>stock_quantity :=
                                   stock_quantity productData - qb_quantity req,
                                 stock_isInStock :=
                                   (stock_quantity productData - qb_quantity req > 0)\<rparr>)\<rparr>)))"

subsection \<open>Payment webhook handlers\<close>

text \<open>
  The handlers return nothing and swallow every exception; the model returns the
  state. Only \<open>paymentIntent.id\<close> of the notification is read.
\<close>

definition handlePaymentSuccess :: "string \<Rightarrow> nat \<Rightarrow> state \<Rightarrow> state" where
  "handlePaymentSuccess piId now s =
     (case find (\<lambda>x. paymentIntentId (paymentDetails x) = Some piId) (orders s) of
        None \<Rightarrow> s
      | Some ord \<Rightarrow>
          if pstatus (paymentDetails ord) \<noteq> PayCompleted then
            let o1 = ord\<lparr>paymentDetails := (paymentDetails ord)
                       \<lparr>pstatus := PayCompleted, transactionId := Some piId,
                        paidAt := Some now\<rparr>\<rparr>;
                o2 = (if orderStatus o1 = Pending
                      then o1\<lparr>orderStatus := Confirmed,
                              timeline := timeline o1 @
                                [\<lparr>status = Confirmed,
                                  message = Some ''Payment completed via webhook'',
                                  timestamp = now, updatedBy = None\<rparr>]\<rparr>
                      else o1)
            in s\<lparr>orders :=
                   saveFirst (\<lambda>x. paymentIntentId (paymentDetails x) = Some piId) o2 (orders s)\<rparr>
          else s)"

definition handlePaymentFailed :: "string \<Rightarrow> nat \<Rightarrow> state \<Rightarrow> state" where
  "handlePaymentFailed piId now s =
     (case find (\<lambda>x. paymentIntentId (paymentDetails x) = Some piId) (orders s) of
        None \<Rightarrow> s
      | Some ord \<Rightarrow>
          let o1 = ord\<lparr>paymentDetails := (paymentDetails ord)\<lparr>pstatus := PayFailed\<rparr>\<rparr>;
              o2 = o1\<lparr>timeline := timeline o1 @
                        [\<lparr>status = orderStatus o1, message = Some ''Payment failed'',
                          timestamp = now, updatedBy = None\<rparr>]\<rparr>
          in s\<lparr>orders :=
                 saveFirst (\<lambda>x. paymentIntentId (paymentDetails x) = Some piId) o2 (orders s)\<rparr>)"

definition handlePaymentCanceled :: "string \<Rightarrow> nat \<Rightarrow> state \<Rightarrow> state" where
  "handlePaymentCanceled piId now s =
     (case find (\<lambda>x. paymentIntentId (paymentDetails x) = Some piId) (orders s) of
        None \<Rightarrow> s
      | Some ord \<Rightarrow>
          let o1 = ord\<lparr>paymentDetails := (paymentDetails ord)\<lparr>pstatus := PayFailed\<rparr>\<rparr>;
              o2 = o1\<lparr>timeline := timeline o1 @
                        [\<lparr>status = orderStatus o1, message = Some ''Payment canceled'',
                          timestamp = now, updatedBy = None\<rparr>]\<rparr>
          in s\<lparr>orders :=
                 saveFirst (\<lambda>x. paymentIntentId (paymentDetails x) = Some piId) o2 (orders s)\<rparr>)"

subsection \<open>The Product model's pre-save hook\<close>

text \<open>\<open>this.stock.isInStock = this.stock.quantity > 0\<close>, run by \<open>save\<close> only.\<close>

definition productPreSave :: "product \<Rightarrow> product" where
  "productPreSave p = p\<lparr>stock_isInStock := (stock_quantity p > 0)\<rparr>"

subsection \<open>Sequences of requests\<close>

text \<open>
  The requests that write orders or stock, run one after the other: each handler runs
  to its end before the next starts.
\<close>

datatype operation =
  PlaceOrder order_request nat nat
  | CancelOrder nat nat "string option" nat
  | QuickBuy quick_buy_request string nat
  | UpdateStatus status_request nat nat
  | PaymentSucceeded string nat
  | PaymentFailed string nat
  | PaymentCanceled string nat

fun step :: "operation \<Rightarrow> state \<Rightarrow> state" where
  "step (PlaceOrder req newId now) s = snd (createOrder req newId now s)"
| "step (CancelOrder reqUser orderId rsn now) s = snd (cancelOrder reqUser orderId rsn now s)"
| "step (QuickBuy req orderNumber newId) s = snd (quickBuy req orderNumber newId s)"
| "step (UpdateStatus req orderId now) s = snd (updateOrderStatus req orderId now s)"
| "step (PaymentSucceeded piId now) s = handlePaymentSuccess piId now s"
| "step (PaymentFailed piId now) s = handlePaymentFailed piId now s"
| "step (PaymentCanceled piId now) s = handlePaymentCanceled piId now s"

fun run :: "operation list \<Rightarrow> state \<Rightarrow> state" where
  "run [] s = s"
| "run (op # ops) s = run ops (step op s)"

subsection \<open>Conditions named for the properties\<close>

text \<open>
  The transition table as the specification gives it (section 4.1), as the set of its
  pairs of a current and an allowed target status.
\<close>

definition allowedPairs :: "(order_status \<times> order_status) set" where
  "allowedPairs =
     {(Pending, Confirmed), (Pending, Cancelled),
      (Confirmed, Processing), (Confirmed, Cancelled),
      (Processing, Shipped), (Processing, Cancelled),
      (Shipped, Out_for_delivery), (Shipped, Delivered),
      (Out_for_delivery, Delivered),
      (Delivered, Returned)}"

text \<open>A cart line that passes both tests of the loop of \<open>POST /api/orders\<close>.\<close>

definition linePasses :: "(nat \<rightharpoonup> product) \<Rightarrow> cart_item \<Rightarrow> bool" where
  "linePasses ps c =
     (case ps (ci_product c) of
        None \<Rightarrow> False
      | Some p \<Rightarrow> isActive p \<and> stock_isInStock p \<and> \<not> stock_quantity p < ci_quantity c)"


text \<open>The document the cancel handler saves.\<close>

definition cancelledOrder :: "nat \<Rightarrow> string option \<Rightarrow> nat \<Rightarrow> order \<Rightarrow> order" where
  "cancelledOrder reqUser rsn now ord =
     ord\<lparr>orderStatus := Cancelled,
         cancellation := \<lparr>reason = Some (orDefault rsn ''Cancelled by customer''),
                          cancelledAt = Some now, cancelledBy = Some reqUser\<rparr>,
         timeline := timeline ord @
           [\<lparr>status = Cancelled, message = Some (orDefault rsn ''Order cancelled by customer''),
             timestamp = now, updatedBy = Some reqUser\<rparr>]\<rparr>"

text \<open>The timeline entry \<open>handlePaymentSuccess\<close> pushes.\<close>

definition confirmedEntry :: "nat \<Rightarrow> timeline_entry" where
  "confirmedEntry now = \<lparr>status = Confirmed, message = Some ''Payment completed via webhook'',
                         timestamp = now, updatedBy = None\<rparr>"


text \<open>
  Conditions on the stored state: no product has negative stock; no line of a stored
  order has a negative quantity (the order item schema's \<open>min: 1\<close> on \<open>quantity\<close>,
  which the library checks whenever an order is created or saved, demands more).
\<close>

definition stockNonneg :: "state \<Rightarrow> bool" where
  "stockNonneg s \<longleftrightarrow> (\<forall>pid p. products s pid = Some p \<longrightarrow> 0 \<le> stock_quantity p)"

definition ordersOk :: "state \<Rightarrow> bool" where
  "ordersOk s \<longleftrightarrow> (\<forall>ord\<in>set (orders s). \<forall>i\<in>set (items ord). 0 \<le> quantity i)"


subsection \<open>Example data\<close>

text \<open>
  One product priced 1000, user 7 with a cart of 2 units of it, and the orders and
  states the examples of the specification and the counterexamples need.
\<close>

definition demoProduct :: "int \<Rightarrow> bool \<Rightarrow> product" where
  "demoProduct q f = \<lparr>pname = ''Ganesh statue'', pprice = 1000, stock_quantity = q,
      stock_isInStock = f, isActive = True\<rparr>"

definition demoCart :: "cart_item list" where
  "demoCart = [\<lparr>ci_product = 1, ci_quantity = 2, ci_price = 1000\<rparr>]"

definition demoItems :: "order_item list" where
  "demoItems = [\<lparr>product = 1, quantity = 2, price = 1000, totalPrice = Some 2000\<rparr>]"

definition demoRequest :: order_request where
  "demoRequest = \<lparr>validationErrors = False, req_user = 7, req_method = Cod\<rparr>"

definition demoState :: state where
  "demoState = \<lparr>products = [1 \<mapsto> demoProduct 5 True], carts = [7 \<mapsto> demoCart], orders = []\<rparr>"

text \<open>
  A stored order of user 7 for those 2 units, with the summary of the specification's
  example, paid by the given method.
\<close>

definition demoDocument :: "payment_method \<Rightarrow> order" where
  "demoDocument m =
     \<lparr>oid = 1, user = Some 7, items = demoItems,
      orderSummary = \<lparr>subtotal = Some 2000, tax = Some 360, shipping = Some 0,
                       discount = Some 0, total = Some 2360\<rparr>,
      paymentDetails = \<lparr>pmethod = m, transactionId = None, paymentIntentId = None,
                         pstatus = PayPending, paidAt = None\<rparr>,
      orderStatus = Pending,
      tracking = \<lparr>trackingNumber = None, carrier = None, estimatedDelivery = None,
                   shippedAt = None, deliveredAt = None\<rparr>,
      timeline = [],
      cancellation = \<lparr>reason = None, cancelledAt = None, cancelledBy = None\<rparr>\<rparr>"

definition demoPlaced :: order where
  "demoPlaced = (demoDocument Cod)
     \<lparr>timeline := [\<lparr>status = Pending, message = Some ''Order placed successfully'',
                    timestamp = 5, updatedBy = Some 7\<rparr>]\<rparr>"

definition demoOrder :: "order_status \<Rightarrow> order" where
  "demoOrder st = (demoDocument Stripe)\<lparr>orderStatus := st\<rparr>"

definition placedState :: state where
  "placedState = \<lparr>products = [1 \<mapsto> demoProduct 3 True], carts = [7 \<mapsto> []],
                   orders = [demoPlaced]\<rparr>"

definition processingState :: state where
  "processingState = \<lparr>products = [1 \<mapsto> demoProduct 3 True], carts = [7 \<mapsto> []],
                       orders = [demoOrder Processing]\<rparr>"

definition busyState :: state where
  "busyState = \<lparr>products = [1 \<mapsto> demoProduct 3 True], carts = [7 \<mapsto> demoCart],
                 orders = [demoPlaced]\<rparr>"

definition shortState :: state where
  "shortState = \<lparr>products = [1 \<mapsto> demoProduct 1 True], carts = [7 \<mapsto> demoCart], orders = []\<rparr>"

definition soldOutState :: state where
  "soldOutState = \<lparr>products = [1 \<mapsto> demoProduct 0 False], carts = [7 \<mapsto> []],
                    orders = [demoPlaced]\<rparr>"

definition retiredProduct :: product where
  "retiredProduct = \<lparr>pname = ''Lamp'', pprice = 300, stock_quantity = 4,
      stock_isInStock = True, isActive = False\<rparr>"

definition cexCart :: "cart_item list" where
  "cexCart = [\<lparr>ci_product = 2, ci_quantity = 1, ci_price = 300\<rparr>,
              \<lparr>ci_product = 1, ci_quantity = 9, ci_price = 1000\<rparr>]"

definition cexState :: state where
  "cexState = \<lparr>products = [1 \<mapsto> demoProduct 5 True, 2 \<mapsto> retiredProduct],
                carts = [7 \<mapsto> cexCart], orders = []\<rparr>"

text \<open>An order on which \<open>POST /api/payment/create-intent\<close> has stored an intent id.\<close>

definition intentOrder :: "order_status \<Rightarrow> order" where
  "intentOrder st =
     (demoOrder st)\<lparr>paymentDetails := (paymentDetails (demoOrder st))
                      \<lparr>paymentIntentId := Some ''pi_1''\<rparr>\<rparr>"

definition intentState :: "order_status \<Rightarrow> state" where
  "intentState st = \<lparr>products = [1 \<mapsto> demoProduct 3 True], carts = [7 \<mapsto> []],
                      orders = [intentOrder st]\<rparr>"

definition demoQuick :: "rat \<Rightarrow> quick_buy_request" where
  "demoQuick tot = \<lparr>qb_otherFieldsValid = True, qb_productId = 1, qb_productPrice = 1000,
      qb_quantity = 2, qb_paymentMethod = QbCod, qb_subtotal = 2000, qb_shipping = 199,
      qb_total = tot\<rparr>"

definition demoStatusRequest :: status_request where
  "demoStatusRequest = \<lparr>sr_validationErrors = False, sr_user = 9, sr_status = Shipped,
      sr_message = None, sr_trackingNumber = None, sr_carrier = None,
      sr_estimatedDelivery = None\<rparr>"


definition demoOps :: "operation list" where
  "demoOps = [PlaceOrder demoRequest 2 5, QuickBuy (demoQuick 2199) ''QB1'' 3,
              CancelOrder 7 1 None 6]"

section \<open>Properties\<close>

subsection \<open>Status transitions\<close>

text \<open>The table of the code is the table of the specification.\<close>

lemma statusTransitions_pairs:
  "new \<in> set (statusTransitions cur) \<longleftrightarrow> (cur, new) \<in> allowedPairs"
  by (cases cur; cases new) (simp_all add: allowedPairs_def)

lemma updateStatus_allowed:
  assumes "(orderStatus ord, new) \<in> allowedPairs"
  shows "us_error (updateStatus new msg byUser now ord) = Some ParallelSaveError"
    and "orderStatus (us_document (updateStatus new msg byUser now ord)) = new"
    and "us_saved (updateStatus new msg byUser now ord) =
           Some (us_document (updateStatus new msg byUser now ord))"
    and "oid (us_document (updateStatus new msg byUser now ord)) = oid ord"
  using assms statusTransitions_pairs [of new "orderStatus ord"]
  by (cases new; simp add: updateStatus_def addTimelineEntry_def Let_def)+

lemma updateStatus_refused:
  assumes "(orderStatus ord, new) \<notin> allowedPairs"
  shows "updateStatus new msg byUser now ord =
           \<lparr>us_error = Some (CannotTransition (orderStatus ord) new),
            us_document = ord, us_saved = None\<rparr>"
  using assms statusTransitions_pairs [of new "orderStatus ord"]
  by (simp add: updateStatus_def)

text \<open>
  The status route on an allowed pair: the answer is 400 with the message of
  \<open>ParallelSaveError\<close>, and the order is stored with the new status.
\<close>

lemma updateOrderStatus_allowed:
  assumes "find (\<lambda>x. oid x = orderId) (orders s) = Some ord"
    and "\<not> sr_validationErrors req"
    and "(orderStatus ord, sr_status req) \<in> allowedPairs"
  shows "updateOrderStatus req orderId now s =
           (Failure ParallelSaveError,
            s\<lparr>orders := saveFirst (\<lambda>x. oid x = orderId)
                 (us_document (updateStatus (sr_status req) (sr_message req)
                                 (Some (sr_user req)) now ord))
                 (orders s)\<rparr>)"
  using assms(1,2)
    updateStatus_allowed(1,3) [OF assms(3), of "sr_message req" "Some (sr_user req)" now]
  by (simp add: updateOrderStatus_def Let_def)

text \<open>
  Claim C1 does not hold of the code. On the pairs that are not in the transition
  table \<open>updateStatus\<close> throws the error that carries the current and the requested
  status, and the order, with its \<open>orderStatus\<close>, is as before: that half of the claim
  holds. On the ten pairs of the table the call does not succeed either: the promise it
  returns is rejected with \<open>ParallelSaveError\<close>, while the document has the new
  status and is written to the store with it. So \<open>updateStatus\<close> succeeds for no order
  and no target status.
\<close>

theorem updateStatus_never_succeeds:
  "us_error (updateStatus new msg byUser now ord) \<noteq> None \<and>
   ((orderStatus ord, new) \<in> allowedPairs \<longrightarrow>
      us_error (updateStatus new msg byUser now ord) = Some ParallelSaveError \<and>
      orderStatus (us_document (updateStatus new msg byUser now ord)) = new \<and>
      us_saved (updateStatus new msg byUser now ord) =
        Some (us_document (updateStatus new msg byUser now ord))) \<and>
   ((orderStatus ord, new) \<notin> allowedPairs \<longrightarrow>
      updateStatus new msg byUser now ord =
        \<lparr>us_error = Some (CannotTransition (orderStatus ord) new),
         us_document = ord, us_saved = None\<rparr>)"
proof (cases "(orderStatus ord, new) \<in> allowedPairs")
  case True
  from updateStatus_allowed(1,2,3) [OF True, of msg byUser now] True
  show ?thesis by simp
next
  case False
  from updateStatus_refused [OF False, of msg byUser now] False
  show ?thesis by simp
qed

text \<open>
  The failing input: an order at processing asked to go to shipped, a pair of the
  table. The call ends in \<open>ParallelSaveError\<close>; through the status route the admin gets
  the 400 answer and the order is stored as shipped. The example of the specification,
  shipped to processing, is refused as the claim says.
\<close>

theorem updateStatus_never_succeeds_witness:
  "(orderStatus (demoOrder Processing), Shipped) \<in> allowedPairs \<and>
   us_error (updateStatus Shipped None (Some 9) 5 (demoOrder Processing)) =
     Some ParallelSaveError \<and>
   orderStatus (us_document (updateStatus Shipped None (Some 9) 5 (demoOrder Processing))) =
     Shipped \<and>
   (orderStatus (demoOrder Shipped), Processing) \<notin> allowedPairs \<and>
   updateStatus Processing None (Some 9) 5 (demoOrder Shipped) =
     \<lparr>us_error = Some (CannotTransition Shipped Processing),
      us_document = demoOrder Shipped, us_saved = None\<rparr> \<and>
   fst (updateOrderStatus demoStatusRequest 1 5 processingState) = Failure ParallelSaveError \<and>
   map orderStatus (orders (snd (updateOrderStatus demoStatusRequest 1 5 processingState))) =
     [Shipped]"
proof -
  have a: "(orderStatus (demoOrder Processing), Shipped) \<in> allowedPairs"
    by (simp add: demoOrder_def allowedPairs_def)
  have b: "(orderStatus (demoOrder Shipped), Processing) \<notin> allowedPairs"
    by (simp add: demoOrder_def allowedPairs_def)
  have f: "find (\<lambda>x. oid x = 1) (orders processingState) = Some (demoOrder Processing)"
    by (simp add: processingState_def demoOrder_def demoDocument_def)
  have r: "(orderStatus (demoOrder Processing), sr_status demoStatusRequest) \<in> allowedPairs"
    using a by (simp add: demoStatusRequest_def)
  have v: "\<not> sr_validationErrors demoStatusRequest"
    by (simp add: demoStatusRequest_def)
  have d: "orderStatus (us_document (updateStatus (sr_status demoStatusRequest)
             (sr_message demoStatusRequest) (Some (sr_user demoStatusRequest)) 5
             (demoOrder Processing))) = Shipped"
    using updateStatus_allowed(2) [OF r] by (simp add: demoStatusRequest_def)
  have c: "fst (updateOrderStatus demoStatusRequest 1 5 processingState) =
             Failure ParallelSaveError \<and>
           map orderStatus
             (orders (snd (updateOrderStatus demoStatusRequest 1 5 processingState))) = [Shipped]"
    unfolding updateOrderStatus_allowed [OF f v r]
    using d by (simp add: processingState_def demoOrder_def demoDocument_def)
  from updateStatus_never_succeeds [of Shipped None "Some 9" 5 "demoOrder Processing"]
       updateStatus_never_succeeds [of Processing None "Some 9" 5 "demoOrder Shipped"]
       a b c
  show ?thesis by (simp add: demoOrder_def)
qed

subsection \<open>The order summary\<close>

lemma validateItems_Inr:
  "validateItems ps cs acc = Inr its \<Longrightarrow> its = acc @ map orderItemOf cs"
proof (induction cs arbitrary: acc)
  case Nil
  then show ?case by simp
next
  case (Cons c cs)
  from Cons.prems have "validateItems ps cs (acc @ [orderItemOf c]) = Inr its"
    by (simp split: option.splits if_splits)
  from Cons.IH [OF this] show ?case by simp
qed

lemma foldl_jsAdd_Some:
  "\<forall>i\<in>set its. totalPrice i = Some (price i * of_int (quantity i)) \<Longrightarrow>
   foldl (\<lambda>acc item. jsAdd acc (totalPrice item)) (Some a) its =
     Some (a + (\<Sum>i\<leftarrow>its. price i * of_int (quantity i)))"
  by (induction its arbitrary: a) (auto simp: jsAdd_def algebra_simps)

lemma sumTotalPrice_Some:
  "\<forall>i\<in>set its. totalPrice i = Some (price i * of_int (quantity i)) \<Longrightarrow>
   sumTotalPrice its = Some (\<Sum>i\<leftarrow>its. price i * of_int (quantity i))"
  using foldl_jsAdd_Some [of its 0] by (simp add: sumTotalPrice_def)

text \<open>What \<open>POST /api/orders\<close> has read and built when it calls \<open>Order.create\<close>.\<close>

lemma prepareOrder_Inr:
  assumes "prepareOrder req s = Inr (cartItems, data)"
  shows "carts s (req_user req) = Some cartItems \<and> cartItems \<noteq> [] \<and>
         \<not> validationErrors req \<and>
         validateItems (products s) cartItems [] = Inr (map orderItemOf cartItems) \<and>
         data = orderData req (map orderItemOf cartItems)"
  using assms
  by (auto simp: prepareOrder_def split: if_splits option.splits sum.splits
      dest!: validateItems_Inr)

text \<open>
  \<open>Order.create\<close> rejects the \<open>orderData\<close> of \<open>POST /api/orders\<close>, which has no
  \<open>orderNumber\<close>; the handler answers 500 and has written nothing.
\<close>

lemma orderCreate_orderData: "orderCreate newId (orderData req its) = None"
  by (simp add: orderCreate_def orderDataValid_def orderData_def Let_def)

lemma createOrder_cases:
  "(\<exists>e. prepareOrder req s = Inl e \<and> createOrder req newId now s = (Failure e, s)) \<or>
   (\<exists>x. prepareOrder req s = Inr x \<and> createOrder req newId now s = (Failure ServerError, s))"
proof (cases "prepareOrder req s")
  case (Inl e)
  then show ?thesis by (simp add: createOrder_def)
next
  case (Inr x)
  obtain cartItems data where x: "x = (cartItems, data)" by (cases x)
  from prepareOrder_Inr [OF Inr [unfolded x]] have "data = orderData req (map orderItemOf cartItems)"
    by simp
  with Inr x show ?thesis by (simp add: createOrder_def orderCreate_orderData)
qed

lemma createOrder_state: "snd (createOrder req newId now s) = s"
  using createOrder_cases [of req s newId now] by auto

text \<open>
  Claim C4, on the order that \<open>POST /api/orders\<close> places through \<open>Order.create\<close>: the
  items and the summary of the \<open>orderData\<close> it builds when the request and the cart
  have passed its checks. There is one item per cart line, with the line's product,
  quantity and price; every line total is the line's price times its quantity, the
  subtotal is the sum of the line totals, the tax is the subtotal times 0.18 rounded,
  the shipping is 0 when the subtotal is at least 2000 and 200 otherwise, the discount
  is 0 and the total is subtotal plus tax plus shipping minus discount. On any order
  with these items and this discount \<open>calculateTotals\<close> computes the same summary.
\<close>

theorem orderData_summary:
  assumes "prepareOrder req s = Inr (cartItems, data)"
  shows "let sub = (\<Sum>i\<leftarrow>od_items data. price i * of_int (quantity i));
             tx = of_int (round (sub * (18 / 100)));
             sh = (if sub \<ge> 2000 then 0 else 200)
         in carts s (req_user req) = Some cartItems \<and>
            map product (od_items data) = map ci_product cartItems \<and>
            map quantity (od_items data) = map ci_quantity cartItems \<and>
            map price (od_items data) = map ci_price cartItems \<and>
            (\<forall>i\<in>set (od_items data). totalPrice i = Some (price i * of_int (quantity i))) \<and>
            subtotal (od_orderSummary data) = Some sub \<and>
            tax (od_orderSummary data) = Some tx \<and>
            shipping (od_orderSummary data) = Some sh \<and>
            discount (od_orderSummary data) = Some 0 \<and>
            total (od_orderSummary data) = Some (sub + tx + sh - 0) \<and>
            (\<forall>ord. items ord = od_items data \<and> discount (orderSummary ord) = Some 0 \<longrightarrow>
               orderSummary (calculateTotals ord) = od_orderSummary data)"
proof -
  from prepareOrder_Inr [OF assms] have
    c: "carts s (req_user req) = Some cartItems"
    and data: "data = orderData req (map orderItemOf cartItems)"
    by simp_all
  have its: "od_items data = map orderItemOf cartItems"
    by (simp add: data orderData_def Let_def)
  have maps: "map product (od_items data) = map ci_product cartItems"
    "map quantity (od_items data) = map ci_quantity cartItems"
    "map price (od_items data) = map ci_price cartItems"
    by (simp_all add: its orderItemOf_def)
  have tp: "\<forall>i\<in>set (od_items data). totalPrice i = Some (price i * of_int (quantity i))"
    by (auto simp: its orderItemOf_def)
  have sub: "sumTotalPrice (od_items data) =
               Some (\<Sum>i\<leftarrow>od_items data. price i * of_int (quantity i))"
    by (rule sumTotalPrice_Some [OF tp])
  have summ: "od_orderSummary data =
      \<lparr>subtotal = sumTotalPrice (od_items data), tax = taxOf (sumTotalPrice (od_items data)),
       shipping = shippingOf (sumTotalPrice (od_items data)), discount = Some 0,
       total = jsAdd (jsAdd (sumTotalPrice (od_items data))
                        (taxOf (sumTotalPrice (od_items data))))
                 (shippingOf (sumTotalPrice (od_items data)))\<rparr>"
    by (simp add: data orderData_def Let_def)
  have fields:
    "subtotal (od_orderSummary data) =
       Some (\<Sum>i\<leftarrow>od_items data. price i * of_int (quantity i))"
    "tax (od_orderSummary data) =
       Some (of_int (round ((\<Sum>i\<leftarrow>od_items data. price i * of_int (quantity i)) * (18 / 100))))"
    "shipping (od_orderSummary data) =
       Some (if (\<Sum>i\<leftarrow>od_items data. price i * of_int (quantity i)) \<ge> 2000 then 0 else 200)"
    "discount (od_orderSummary data) = Some 0"
    "total (od_orderSummary data) =
       Some ((\<Sum>i\<leftarrow>od_items data. price i * of_int (quantity i))
             + of_int (round ((\<Sum>i\<leftarrow>od_items data. price i * of_int (quantity i)) * (18 / 100)))
             + (if (\<Sum>i\<leftarrow>od_items data. price i * of_int (quantity i)) \<ge> 2000 then 0 else 200)
             - 0)"
    unfolding summ sub
    by (simp_all add: taxOf_def shippingOf_def jsAdd_def jsRound_def round_def)
  have calc: "orderSummary (calculateTotals ord) = od_orderSummary data"
    if "items ord = od_items data \<and> discount (orderSummary ord) = Some 0" for ord
    unfolding calculateTotals_def Let_def using that
    by (simp add: summ sub taxOf_def shippingOf_def jsAdd_def jsSub_def)
  show ?thesis unfolding Let_def using c maps tp fields calc by simp
qed

text \<open>
  The example of the specification: a cart holding 2 units of an item priced 1000 gives
  subtotal 2000, tax 360, shipping 0, total 2360. (\<open>Order.create\<close> then rejects the
  data, which has no order number, and the handler answers 500.)
\<close>

lemma demo_prepareOrder:
  "prepareOrder demoRequest demoState = Inr (demoCart, orderData demoRequest demoItems)"
  by (simp add: prepareOrder_def demoRequest_def demoState_def demoProduct_def demoItems_def
      demoCart_def orderItemOf_def)

theorem orderData_summary_witness:
  "prepareOrder demoRequest demoState = Inr (demoCart, orderData demoRequest demoItems) \<and>
   od_items (orderData demoRequest demoItems) =
     [\<lparr>product = 1, quantity = 2, price = 1000, totalPrice = Some 2000\<rparr>] \<and>
   subtotal (od_orderSummary (orderData demoRequest demoItems)) = Some 2000 \<and>
   tax (od_orderSummary (orderData demoRequest demoItems)) = Some 360 \<and>
   shipping (od_orderSummary (orderData demoRequest demoItems)) = Some 0 \<and>
   discount (od_orderSummary (orderData demoRequest demoItems)) = Some 0 \<and>
   total (od_orderSummary (orderData demoRequest demoItems)) = Some 2360 \<and>
   orderSummary (calculateTotals demoPlaced) =
     od_orderSummary (orderData demoRequest demoItems) \<and>
   createOrder demoRequest 1 5 demoState = (Failure ServerError, demoState)"
proof -
  have its: "od_items (orderData demoRequest demoItems) = demoItems"
    by (simp add: orderData_def Let_def)
  have sub: "(\<Sum>i\<leftarrow>demoItems. price i * of_int (quantity i)) = 2000"
    by (simp add: demoItems_def)
  have tx: "round ((2000::rat) * (18 / 100)) = 360"
    unfolding round_def by linarith
  have pl: "items demoPlaced = demoItems \<and> discount (orderSummary demoPlaced) = Some 0"
    by (simp add: demoPlaced_def demoDocument_def)
  have cr: "createOrder demoRequest 1 5 demoState = (Failure ServerError, demoState)"
    using createOrder_cases [of demoRequest demoState 1 5] demo_prepareOrder by simp
  from orderData_summary [OF demo_prepareOrder] pl
  have "subtotal (od_orderSummary (orderData demoRequest demoItems)) = Some 2000 \<and>
        tax (od_orderSummary (orderData demoRequest demoItems)) = Some 360 \<and>
        shipping (od_orderSummary (orderData demoRequest demoItems)) = Some 0 \<and>
        discount (od_orderSummary (orderData demoRequest demoItems)) = Some 0 \<and>
        total (od_orderSummary (orderData demoRequest demoItems)) = Some 2360 \<and>
        orderSummary (calculateTotals demoPlaced) =
          od_orderSummary (orderData demoRequest demoItems)"
    unfolding Let_def its sub tx by simp
  with demo_prepareOrder cr its show ?thesis by (simp add: demoItems_def)
qed

subsection \<open>Insufficient stock at order placement\<close>

lemma validateItems_passes:
  "\<forall>d\<in>set pre. linePasses ps d \<Longrightarrow>
   validateItems ps (pre @ rest) acc = validateItems ps rest (acc @ map orderItemOf pre)"
  by (induction pre arbitrary: acc) (auto simp: linePasses_def split: option.splits)

lemma validateItems_fails:
  "\<not> linePasses ps d \<Longrightarrow>
   validateItems ps (d # post) acc =
     Inl (case ps (ci_product d) of
            None \<Rightarrow> ProductsUnavailable
          | Some q \<Rightarrow> if isActive q then InsufficientStock (pname q) (stock_quantity q)
                      else ProductsUnavailable)"
  by (auto simp: linePasses_def split: option.splits)

lemma createOrder_Inl:
  "carts s (req_user req) = Some cartItems \<Longrightarrow> cartItems \<noteq> [] \<Longrightarrow> \<not> validationErrors req \<Longrightarrow>
   validateItems (products s) cartItems [] = Inl e \<Longrightarrow>
   createOrder req newId now s = (Failure e, s)"
  by (simp add: createOrder_def prepareOrder_def)

text \<open>
  Claim C2, amended. If a line of the user's cart asks for more than the stock of its
  product, \<open>POST /api/orders\<close> fails and returns the state as it was: no order is
  created, no stock and no cart is changed. The error is \<open>Validation failed\<close> when
  the request did not pass validation. Otherwise it is the error of the first line of
  the cart, in cart order, that fails a test of the loop: \<open>Some products in cart are no
  longer available\<close> when that line's product is missing or not active, and the
  insufficient-stock error with that product's name and available quantity when the
  product is active and is flagged out of stock or has less than the line asks for. So
  the error names the product of the line in question and its available quantity when
  the request passed validation, the product is active and every line before it passes
  the tests.
\<close>

theorem createOrder_insufficient_stock:
  assumes "carts s (req_user req) = Some cartItems"
    and "c \<in> set cartItems"
    and "products s (ci_product c) = Some p"
    and "stock_quantity p < ci_quantity c"
  shows "(\<exists>e. createOrder req newId now s = (Failure e, s)) \<and>
         (\<not> validationErrors req \<and> isActive p \<and>
          (\<exists>pre post. cartItems = pre @ c # post \<and> (\<forall>d\<in>set pre. linePasses (products s) d))
          \<longrightarrow> createOrder req newId now s =
                (Failure (InsufficientStock (pname p) (stock_quantity p)), s)) \<and>
         (validationErrors req \<longrightarrow>
            createOrder req newId now s = (Failure ValidationFailed, s)) \<and>
         (\<not> validationErrors req \<longrightarrow>
            (\<exists>pre d post. cartItems = pre @ d # post \<and>
               (\<forall>x\<in>set pre. linePasses (products s) x) \<and> \<not> linePasses (products s) d \<and>
               createOrder req newId now s =
                 (Failure (case products s (ci_product d) of
                             None \<Rightarrow> ProductsUnavailable
                           | Some q \<Rightarrow>
                               if isActive q
                               then InsufficientStock (pname q) (stock_quantity q)
                               else ProductsUnavailable), s)))"
proof -
  from assms(2) have ne: "cartItems \<noteq> []" by auto
  have val: "createOrder req newId now s = (Failure ValidationFailed, s)"
    if "validationErrors req"
    using that by (simp add: createOrder_def prepareOrder_def)
  from assms(3,4) have "\<not> linePasses (products s) c"
    by (simp add: linePasses_def)
  with assms(2) have "\<exists>x\<in>set cartItems. \<not> linePasses (products s) x" by blast
  from split_list_first_prop [OF this] obtain pre d post where
    sp: "cartItems = pre @ d # post" and d: "\<not> linePasses (products s) d"
    and pre: "\<forall>x\<in>set pre. linePasses (products s) x"
    by auto
  have vi: "validateItems (products s) cartItems [] =
              Inl (case products s (ci_product d) of
                     None \<Rightarrow> ProductsUnavailable
                   | Some q \<Rightarrow> if isActive q then InsufficientStock (pname q) (stock_quantity q)
                               else ProductsUnavailable)"
    unfolding sp validateItems_passes [OF pre] by (rule validateItems_fails [OF d])
  have first: "createOrder req newId now s =
                 (Failure (case products s (ci_product d) of
                             None \<Rightarrow> ProductsUnavailable
                           | Some q \<Rightarrow>
                               if isActive q
                               then InsufficientStock (pname q) (stock_quantity q)
                               else ProductsUnavailable), s)"
    if "\<not> validationErrors req"
    by (rule createOrder_Inl [OF assms(1) ne that vi])
  have a: "\<exists>e. createOrder req newId now s = (Failure e, s)"
    using val first by (cases "validationErrors req") blast+
  have b: "createOrder req newId now s =
             (Failure (InsufficientStock (pname p) (stock_quantity p)), s)"
    if v: "\<not> validationErrors req" and act: "isActive p"
      and sp': "cartItems = pre' @ c # post'"
      and pre': "\<forall>d\<in>set pre'. linePasses (products s) d"
    for pre' post'
  proof -
    have "validateItems (products s) cartItems [] =
            Inl (InsufficientStock (pname p) (stock_quantity p))"
      unfolding sp' validateItems_passes [OF pre']
      using assms(3,4) act by simp
    then show ?thesis by (rule createOrder_Inl [OF assms(1) ne v])
  qed
  have e: "\<exists>pre d post. cartItems = pre @ d # post \<and>
               (\<forall>x\<in>set pre. linePasses (products s) x) \<and> \<not> linePasses (products s) d \<and>
               createOrder req newId now s =
                 (Failure (case products s (ci_product d) of
                             None \<Rightarrow> ProductsUnavailable
                           | Some q \<Rightarrow>
                               if isActive q
                               then InsufficientStock (pname q) (stock_quantity q)
                               else ProductsUnavailable), s)"
    if "\<not> validationErrors req"
    using sp pre d first [OF that] by blast
  show ?thesis using a b val e by blast
qed

theorem createOrder_insufficient_stock_witness:
  "carts shortState 7 = Some demoCart \<and>
   products shortState 1 = Some (demoProduct 1 True) \<and>
   stock_quantity (demoProduct 1 True) < 2 \<and>
   createOrder demoRequest 1 5 shortState =
     (Failure (InsufficientStock ''Ganesh statue'' 1), shortState)"
proof -
  have 1: "carts shortState (req_user demoRequest) = Some demoCart"
    by (simp add: shortState_def demoRequest_def)
  have 2: "\<lparr>ci_product = 1, ci_quantity = 2, ci_price = 1000\<rparr> \<in> set demoCart"
    by (simp add: demoCart_def)
  have 3: "products shortState (ci_product \<lparr>ci_product = 1, ci_quantity = 2, ci_price = 1000\<rparr>)
           = Some (demoProduct 1 True)"
    by (simp add: shortState_def)
  have 4: "stock_quantity (demoProduct 1 True)
           < ci_quantity \<lparr>ci_product = 1, ci_quantity = 2, ci_price = 1000\<rparr>"
    by (simp add: demoProduct_def)
  have 5: "\<not> validationErrors demoRequest \<and> isActive (demoProduct 1 True) \<and>
     (\<exists>pre post. demoCart = pre @ \<lparr>ci_product = 1, ci_quantity = 2, ci_price = 1000\<rparr> # post \<and>
        (\<forall>d\<in>set pre. linePasses (products shortState) d))"
    by (auto simp: demoRequest_def demoProduct_def demoCart_def intro!: exI [of _ "[]"])
  from createOrder_insufficient_stock [OF 1 2 3 4, of 1 5] 5
  have "createOrder demoRequest 1 5 shortState =
     (Failure (InsufficientStock (pname (demoProduct 1 True)) (stock_quantity (demoProduct 1 True))),
      shortState)"
    by blast
  then show ?thesis using 1 3 4 by (simp add: demoProduct_def demoRequest_def)
qed

text \<open>
  The claim as first stated fails when an earlier line's product is no longer active:
  the second line asks for 9 of a product with 5 in stock, and the error is the one for
  unavailable products.
\<close>

theorem createOrder_insufficient_stock_counterexample:
  "carts cexState 7 = Some cexCart \<and>
   cexCart ! 1 = \<lparr>ci_product = 1, ci_quantity = 9, ci_price = 1000\<rparr> \<and>
   products cexState 1 = Some (demoProduct 5 True) \<and>
   stock_quantity (demoProduct 5 True) = 5 \<and>
   createOrder demoRequest 1 5 cexState = (Failure ProductsUnavailable, cexState)"
  by (simp add: cexState_def cexCart_def demoProduct_def retiredProduct_def
      createOrder_def prepareOrder_def demoRequest_def)

subsection \<open>Cancellation\<close>

lemma incStock_lookup:
  "incStock k d ps pid =
     (if pid = k then map_option (\<lambda>p. p\<lparr>stock_quantity := stock_quantity p + d\<rparr>) (ps pid)
      else ps pid)"
  by (simp add: incStock_def split: option.splits)

lemma restoreStock_lookup:
  "restoreStock its ps pid =
     map_option (\<lambda>p. p\<lparr>stock_quantity :=
                         stock_quantity p + (\<Sum>i\<leftarrow>filter (\<lambda>i. product i = pid) its. quantity i)\<rparr>)
       (ps pid)"
proof (induction its arbitrary: ps)
  case Nil
  show ?case by (cases "ps pid") simp_all
next
  case (Cons i its)
  show ?case
    by (cases "ps pid") (auto simp: Cons.IH incStock_lookup algebra_simps)
qed

lemma find_saveFirst:
  "find P xs = Some x \<Longrightarrow> P d \<Longrightarrow> find P (saveFirst P d xs) = Some d"
  by (induction xs) (auto split: if_splits)

text \<open>
  Claim C5, amended. Let the owner cancel an order through
  \<open>PUT /api/orders/:id/cancel\<close>. When the order is pending or confirmed, the order
  becomes cancelled, every product's stock grows by exactly the quantities of the
  order's lines for that product (no other product field changes, no product appears
  or disappears), and a second cancel attempt is rejected with the error that carries
  the status cancelled, changing nothing. When the order is in any other status,
  processing included, the attempt is rejected with the error that carries that status
  and nothing changes.
\<close>

theorem cancelOrder_restores:
  assumes "find (\<lambda>x. oid x = orderId) (orders s) = Some ord"
    and "user ord = Some reqUser"
  shows "(orderStatus ord \<in> {Pending, Confirmed} \<longrightarrow>
           (\<exists>ord' s'. cancelOrder reqUser orderId rsn now s = (Success ord', s') \<and>
              orderStatus ord' = Cancelled \<and>
              find (\<lambda>x. oid x = orderId) (orders s') = Some ord' \<and>
              (\<forall>pid. products s' pid =
                 map_option
                   (\<lambda>p. p\<lparr>stock_quantity := stock_quantity p +
                            (\<Sum>i\<leftarrow>filter (\<lambda>i. product i = pid) (items ord). quantity i)\<rparr>)
                   (products s pid)) \<and>
              cancelOrder reqUser orderId rsn2 now2 s' = (Failure (CannotCancel Cancelled), s')))
       \<and> (orderStatus ord \<notin> {Pending, Confirmed} \<longrightarrow>
            cancelOrder reqUser orderId rsn now s = (Failure (CannotCancel (orderStatus ord)), s))"
proof (intro conjI impI)
  assume st: "orderStatus ord \<in> {Pending, Confirmed}"
  define ord' where "ord' = ord\<lparr>orderStatus := Cancelled,
      cancellation := \<lparr>reason = Some (orDefault rsn ''Cancelled by customer''),
                       cancelledAt = Some now, cancelledBy = Some reqUser\<rparr>,
      timeline := timeline ord @
        [\<lparr>status = Cancelled, message = Some (orDefault rsn ''Order cancelled by customer''),
          timestamp = now, updatedBy = Some reqUser\<rparr>]\<rparr>"
  define s' where "s' = s\<lparr>orders := saveFirst (\<lambda>x. oid x = orderId) ord' (orders s),
      products := restoreStock (items ord) (products s)\<rparr>"
  have run: "cancelOrder reqUser orderId rsn now s = (Success ord', s')"
    using assms st by (auto simp: cancelOrder_def ord'_def s'_def Let_def)
  from assms(1) have "oid ord = orderId" by (auto dest: find_Some_iff [THEN iffD1])
  then have oid': "oid ord' = orderId" by (simp add: ord'_def)
  have found: "find (\<lambda>x. oid x = orderId) (orders s') = Some ord'"
    using find_saveFirst [OF assms(1), of ord'] oid' by (simp add: s'_def)
  have stock: "\<forall>pid. products s' pid =
      map_option
        (\<lambda>p. p\<lparr>stock_quantity := stock_quantity p +
                 (\<Sum>i\<leftarrow>filter (\<lambda>i. product i = pid) (items ord). quantity i)\<rparr>)
        (products s pid)"
    by (simp add: s'_def restoreStock_lookup)
  have again:
    "cancelOrder reqUser orderId rsn2 now2 s' = (Failure (CannotCancel Cancelled), s')"
    using found assms(2) by (simp add: cancelOrder_def ord'_def)
  have "orderStatus ord' = Cancelled" by (simp add: ord'_def)
  with run found stock again
  show "\<exists>ord' s'. cancelOrder reqUser orderId rsn now s = (Success ord', s') \<and>
              orderStatus ord' = Cancelled \<and>
              find (\<lambda>x. oid x = orderId) (orders s') = Some ord' \<and>
              (\<forall>pid. products s' pid =
                 map_option
                   (\<lambda>p. p\<lparr>stock_quantity := stock_quantity p +
                            (\<Sum>i\<leftarrow>filter (\<lambda>i. product i = pid) (items ord). quantity i)\<rparr>)
                   (products s pid)) \<and>
              cancelOrder reqUser orderId rsn2 now2 s' = (Failure (CannotCancel Cancelled), s')"
    by blast
next
  assume "orderStatus ord \<notin> {Pending, Confirmed}"
  then show "cancelOrder reqUser orderId rsn now s =
      (Failure (CannotCancel (orderStatus ord)), s)"
    using assms by (simp add: cancelOrder_def)
qed

lemma demoPlaced_fields:
  "oid demoPlaced = 1" "user demoPlaced = Some 7" "orderStatus demoPlaced = Pending"
  "items demoPlaced = demoItems"
  by (simp_all add: demoPlaced_def demoDocument_def)

lemma demoOrder_fields:
  "oid (demoOrder st) = 1" "user (demoOrder st) = Some 7" "orderStatus (demoOrder st) = st"
  "items (demoOrder st) = demoItems"
  by (simp_all add: demoOrder_def demoDocument_def)

theorem cancelOrder_restores_witness:
  "orderStatus demoPlaced = Pending \<and>
   (\<exists>ord' s'. cancelOrder 7 1 None 9 placedState = (Success ord', s') \<and>
      orderStatus ord' = Cancelled \<and>
      map_option stock_quantity (products placedState 1) = Some 3 \<and>
      map_option stock_quantity (products s' 1) = Some 5 \<and>
      cancelOrder 7 1 None 10 s' = (Failure (CannotCancel Cancelled), s')) \<and>
   cancelOrder 7 1 None 9 processingState =
     (Failure (CannotCancel Processing), processingState)"
proof -
  have f1: "find (\<lambda>x. oid x = 1) (orders placedState) = Some demoPlaced"
    by (simp add: placedState_def demoPlaced_fields)
  have f2: "find (\<lambda>x. oid x = 1) (orders processingState) = Some (demoOrder Processing)"
    by (simp add: processingState_def demoOrder_fields)
  have p: "products placedState 1 = Some (demoProduct 3 True)"
    by (simp add: placedState_def)
  from cancelOrder_restores [OF f1 demoPlaced_fields(2), of None 9 None 10]
  obtain ord' s' where
    a: "cancelOrder 7 1 None 9 placedState = (Success ord', s')"
      "orderStatus ord' = Cancelled"
      "products s' 1 = map_option
         (\<lambda>p. p\<lparr>stock_quantity := stock_quantity p +
                  (\<Sum>i\<leftarrow>filter (\<lambda>i. product i = 1) (items demoPlaced). quantity i)\<rparr>)
         (products placedState 1)"
      "cancelOrder 7 1 None 10 s' = (Failure (CannotCancel Cancelled), s')"
    by (auto simp: demoPlaced_fields)
  have b: "map_option stock_quantity (products s' 1) = Some 5"
    unfolding a(3) p by (simp add: demoPlaced_fields demoItems_def demoProduct_def)
  from cancelOrder_restores [OF f2 demoOrder_fields(2), of None 9 None 10]
  have c: "cancelOrder 7 1 None 9 processingState =
     (Failure (CannotCancel Processing), processingState)"
    by (simp add: demoOrder_fields)
  show ?thesis
    using a(1,2,4) b c p by (auto simp: demoPlaced_fields demoProduct_def)
qed

text \<open>
  The claim as first stated fails: an order in processing is not cancelled by the
  route, and its stock is not restored.
\<close>

theorem cancelOrder_processing_counterexample:
  "find (\<lambda>x. oid x = 1) (orders processingState) = Some (demoOrder Processing) \<and>
   orderStatus (demoOrder Processing) = Processing \<and>
   user (demoOrder Processing) = Some 7 \<and>
   cancelOrder 7 1 None 9 processingState =
     (Failure (CannotCancel Processing), processingState)"
  by (simp add: processingState_def demoOrder_fields cancelOrder_def)

subsection \<open>Payment notifications\<close>

lemma find_Some_P: "find P xs = Some x \<Longrightarrow> P x"
  by (induction xs) (auto split: if_splits)

lemma handlePaymentSuccess_found:
  assumes "find (\<lambda>x. paymentIntentId (paymentDetails x) = Some piId) (orders s) = Some ord"
    and "pstatus (paymentDetails ord) \<noteq> PayCompleted"
  shows "\<exists>ord'. find (\<lambda>x. paymentIntentId (paymentDetails x) = Some piId)
                  (orders (handlePaymentSuccess piId now s)) = Some ord' \<and>
          pstatus (paymentDetails ord') = PayCompleted \<and>
          paymentDetails ord' = (paymentDetails ord)
             \<lparr>pstatus := PayCompleted, transactionId := Some piId, paidAt := Some now\<rparr> \<and>
          (if orderStatus ord = Pending
           then ord' = ord\<lparr>paymentDetails := paymentDetails ord', orderStatus := Confirmed,
                          timeline := timeline ord @ [confirmedEntry now]\<rparr>
           else ord' = ord\<lparr>paymentDetails := paymentDetails ord'\<rparr>)"
proof -
  from assms(1) have P: "paymentIntentId (paymentDetails ord) = Some piId"
    by (rule find_Some_P)
  show ?thesis
  proof (cases "orderStatus ord = Pending")
    case True
    then show ?thesis
      using assms P
      by (simp add: handlePaymentSuccess_def Let_def find_saveFirst confirmedEntry_def)
  next
    case False
    then show ?thesis
      using assms P
      by (simp add: handlePaymentSuccess_def Let_def find_saveFirst)
  qed
qed

lemma handlePaymentSuccess_completed:
  assumes "find (\<lambda>x. paymentIntentId (paymentDetails x) = Some piId) (orders s) = Some ord"
    and "pstatus (paymentDetails ord) = PayCompleted"
  shows "handlePaymentSuccess piId now s = s"
  using assms by (simp add: handlePaymentSuccess_def)

lemma handlePaymentSuccess_missing:
  assumes "find (\<lambda>x. paymentIntentId (paymentDetails x) = Some piId) (orders s) = None"
  shows "handlePaymentSuccess piId now s = s"
  using assms by (simp add: handlePaymentSuccess_def)

lemma handlePaymentSuccess_twice:
  "handlePaymentSuccess piId now2 (handlePaymentSuccess piId now1 s) =
     handlePaymentSuccess piId now1 s"
proof (cases "find (\<lambda>x. paymentIntentId (paymentDetails x) = Some piId) (orders s)")
  case None
  then show ?thesis by (simp add: handlePaymentSuccess_missing)
next
  case (Some ord)
  show ?thesis
  proof (cases "pstatus (paymentDetails ord) = PayCompleted")
    case True
    with Some show ?thesis by (simp add: handlePaymentSuccess_completed)
  next
    case False
    from handlePaymentSuccess_found [OF Some False, of now1] obtain ord' where
      "find (\<lambda>x. paymentIntentId (paymentDetails x) = Some piId)
         (orders (handlePaymentSuccess piId now1 s)) = Some ord'"
      "pstatus (paymentDetails ord') = PayCompleted"
      by blast
    then show ?thesis by (rule handlePaymentSuccess_completed)
  qed
qed

text \<open>
  Claim C6. \<open>handlePaymentSuccess\<close> is idempotent: applying the same notification a
  second time, at any later time, gives the state the first application gave. Applied
  to an order whose payment status is already completed it changes nothing. For a
  pending order not yet completed, the order found after two applications is confirmed
  and its timeline is the old timeline with exactly one confirmed entry appended. The
  handler returns in every case (the function is total).
\<close>

theorem handlePaymentSuccess_idempotent:
  "handlePaymentSuccess piId now2 (handlePaymentSuccess piId now1 s) =
     handlePaymentSuccess piId now1 s \<and>
   (\<forall>ord. find (\<lambda>x. paymentIntentId (paymentDetails x) = Some piId) (orders s) = Some ord \<and>
          pstatus (paymentDetails ord) = PayCompleted \<longrightarrow>
          handlePaymentSuccess piId now1 s = s) \<and>
   (\<forall>ord. find (\<lambda>x. paymentIntentId (paymentDetails x) = Some piId) (orders s) = Some ord \<and>
          pstatus (paymentDetails ord) \<noteq> PayCompleted \<and> orderStatus ord = Pending \<longrightarrow>
          (\<exists>ord'. find (\<lambda>x. paymentIntentId (paymentDetails x) = Some piId)
                    (orders (handlePaymentSuccess piId now2 (handlePaymentSuccess piId now1 s)))
                  = Some ord' \<and>
                 orderStatus ord' = Confirmed \<and>
                 timeline ord' = timeline ord @
                   [\<lparr>status = Confirmed, message = Some ''Payment completed via webhook'',
                     timestamp = now1, updatedBy = None\<rparr>]))"
proof (intro conjI allI impI)
  show "handlePaymentSuccess piId now2 (handlePaymentSuccess piId now1 s) =
     handlePaymentSuccess piId now1 s"
    by (rule handlePaymentSuccess_twice)
next
  fix ord
  assume "find (\<lambda>x. paymentIntentId (paymentDetails x) = Some piId) (orders s) = Some ord \<and>
          pstatus (paymentDetails ord) = PayCompleted"
  then show "handlePaymentSuccess piId now1 s = s"
    by (simp add: handlePaymentSuccess_completed)
next
  fix ord
  assume a: "find (\<lambda>x. paymentIntentId (paymentDetails x) = Some piId) (orders s) = Some ord \<and>
          pstatus (paymentDetails ord) \<noteq> PayCompleted \<and> orderStatus ord = Pending"
  then have f: "find (\<lambda>x. paymentIntentId (paymentDetails x) = Some piId) (orders s) = Some ord"
    and n: "pstatus (paymentDetails ord) \<noteq> PayCompleted" and p: "orderStatus ord = Pending"
    by simp_all
  from handlePaymentSuccess_found [OF f n, of now1] p
  show "\<exists>ord'. find (\<lambda>x. paymentIntentId (paymentDetails x) = Some piId)
                    (orders (handlePaymentSuccess piId now2 (handlePaymentSuccess piId now1 s)))
                  = Some ord' \<and>
                 orderStatus ord' = Confirmed \<and>
                 timeline ord' = timeline ord @
                   [\<lparr>status = Confirmed, message = Some ''Payment completed via webhook'',
                     timestamp = now1, updatedBy = None\<rparr>]"
    unfolding handlePaymentSuccess_twice by (auto simp: confirmedEntry_def)
qed

lemma intentOrder_fields:
  "paymentIntentId (paymentDetails (intentOrder st)) = Some ''pi_1''"
  "pstatus (paymentDetails (intentOrder st)) = PayPending"
  "orderStatus (intentOrder st) = st"
  "timeline (intentOrder st) = []"
  by (simp_all add: intentOrder_def demoOrder_def demoDocument_def)

theorem handlePaymentSuccess_idempotent_witness:
  "\<exists>ord'. find (\<lambda>x. paymentIntentId (paymentDetails x) = Some ''pi_1'')
            (orders (handlePaymentSuccess ''pi_1'' 6 (handlePaymentSuccess ''pi_1'' 5
               (intentState Pending)))) = Some ord' \<and>
          orderStatus ord' = Confirmed \<and>
          map status (timeline ord') = [Confirmed] \<and>
          pstatus (paymentDetails ord') = PayCompleted \<and>
          handlePaymentSuccess ''pi_1'' 7
            (handlePaymentSuccess ''pi_1'' 6 (handlePaymentSuccess ''pi_1'' 5 (intentState Pending)))
          = handlePaymentSuccess ''pi_1'' 5 (intentState Pending)"
proof -
  have f: "find (\<lambda>x. paymentIntentId (paymentDetails x) = Some ''pi_1'')
             (orders (intentState Pending)) = Some (intentOrder Pending)"
    by (simp add: intentState_def intentOrder_fields)
  note th = handlePaymentSuccess_idempotent [of "''pi_1''" 6 5 "intentState Pending"]
  from th f obtain ord' where
    a: "find (\<lambda>x. paymentIntentId (paymentDetails x) = Some ''pi_1'')
            (orders (handlePaymentSuccess ''pi_1'' 6 (handlePaymentSuccess ''pi_1'' 5
               (intentState Pending)))) = Some ord'"
      "orderStatus ord' = Confirmed"
      "timeline ord' = timeline (intentOrder Pending) @
                   [\<lparr>status = Confirmed, message = Some ''Payment completed via webhook'',
                     timestamp = 5, updatedBy = None\<rparr>]"
    by (auto simp: intentOrder_fields)
  from th have tw: "handlePaymentSuccess ''pi_1'' 6 (handlePaymentSuccess ''pi_1'' 5
               (intentState Pending)) = handlePaymentSuccess ''pi_1'' 5 (intentState Pending)"
    by blast
  from handlePaymentSuccess_found [OF f, of 5] a(1) tw
  have c: "pstatus (paymentDetails ord') = PayCompleted"
    by (auto simp: intentOrder_fields)
  have d: "handlePaymentSuccess ''pi_1'' 7
            (handlePaymentSuccess ''pi_1'' 6 (handlePaymentSuccess ''pi_1'' 5 (intentState Pending)))
          = handlePaymentSuccess ''pi_1'' 5 (intentState Pending)"
    using handlePaymentSuccess_idempotent [of "''pi_1''" 7 5 "intentState Pending"] tw by simp
  show ?thesis using a c d by (auto simp: intentOrder_fields)
qed

lemma handlePaymentFailed_found:
  assumes "find (\<lambda>x. paymentIntentId (paymentDetails x) = Some piId) (orders s) = Some ord"
  shows "find (\<lambda>x. paymentIntentId (paymentDetails x) = Some piId)
           (orders (handlePaymentFailed piId now s)) =
         Some (ord\<lparr>paymentDetails := (paymentDetails ord)\<lparr>pstatus := PayFailed\<rparr>,
                   timeline := timeline ord @
                     [\<lparr>status = orderStatus ord, message = Some ''Payment failed'',
                       timestamp = now, updatedBy = None\<rparr>]\<rparr>)"
proof -
  from assms have P: "paymentIntentId (paymentDetails ord) = Some piId"
    by (rule find_Some_P)
  show ?thesis using assms P
    by (simp add: handlePaymentFailed_def Let_def find_saveFirst)
qed

text \<open>
  Claim C7. For the order a notification's intent id finds: a payment-failure
  notification sets the payment status to failed and leaves \<open>orderStatus\<close> as it was
  (the order changes in its payment status and by one appended timeline entry, which
  carries the unchanged status); after a payment-success notification the order
  status differs from before only if it was pending and is now confirmed, a pending
  order not yet paid becomes confirmed, and an order in any other status changes in its
  payment sub-document only.
\<close>

theorem payment_notification_frame:
  assumes "find (\<lambda>x. paymentIntentId (paymentDetails x) = Some piId) (orders s) = Some ord"
  shows "(\<exists>ord'. find (\<lambda>x. paymentIntentId (paymentDetails x) = Some piId)
                   (orders (handlePaymentFailed piId now s)) = Some ord' \<and>
            pstatus (paymentDetails ord') = PayFailed \<and>
            orderStatus ord' = orderStatus ord \<and>
            ord' = ord\<lparr>paymentDetails := (paymentDetails ord)\<lparr>pstatus := PayFailed\<rparr>,
                       timeline := timeline ord @
                         [\<lparr>status = orderStatus ord, message = Some ''Payment failed'',
                           timestamp = now, updatedBy = None\<rparr>]\<rparr>) \<and>
         (\<exists>ord'. find (\<lambda>x. paymentIntentId (paymentDetails x) = Some piId)
                   (orders (handlePaymentSuccess piId now s)) = Some ord' \<and>
            (orderStatus ord' \<noteq> orderStatus ord \<longrightarrow>
               orderStatus ord = Pending \<and> orderStatus ord' = Confirmed) \<and>
            (orderStatus ord = Pending \<and> pstatus (paymentDetails ord) \<noteq> PayCompleted \<longrightarrow>
               orderStatus ord' = Confirmed) \<and>
            (orderStatus ord \<noteq> Pending \<longrightarrow>
               ord' = ord\<lparr>paymentDetails := paymentDetails ord'\<rparr>))"
proof (intro conjI)
  show "\<exists>ord'. find (\<lambda>x. paymentIntentId (paymentDetails x) = Some piId)
                   (orders (handlePaymentFailed piId now s)) = Some ord' \<and>
            pstatus (paymentDetails ord') = PayFailed \<and>
            orderStatus ord' = orderStatus ord \<and>
            ord' = ord\<lparr>paymentDetails := (paymentDetails ord)\<lparr>pstatus := PayFailed\<rparr>,
                       timeline := timeline ord @
                         [\<lparr>status = orderStatus ord, message = Some ''Payment failed'',
                           timestamp = now, updatedBy = None\<rparr>]\<rparr>"
    using handlePaymentFailed_found [OF assms, of now] by simp
next
  show "\<exists>ord'. find (\<lambda>x. paymentIntentId (paymentDetails x) = Some piId)
                   (orders (handlePaymentSuccess piId now s)) = Some ord' \<and>
            (orderStatus ord' \<noteq> orderStatus ord \<longrightarrow>
               orderStatus ord = Pending \<and> orderStatus ord' = Confirmed) \<and>
            (orderStatus ord = Pending \<and> pstatus (paymentDetails ord) \<noteq> PayCompleted \<longrightarrow>
               orderStatus ord' = Confirmed) \<and>
            (orderStatus ord \<noteq> Pending \<longrightarrow>
               ord' = ord\<lparr>paymentDetails := paymentDetails ord'\<rparr>)"
  proof (cases "pstatus (paymentDetails ord) = PayCompleted")
    case True
    from handlePaymentSuccess_completed [OF assms True, of now] assms True
    show ?thesis by simp
  next
    case False
    from handlePaymentSuccess_found [OF assms False, of now] obtain ord' where
      f: "find (\<lambda>x. paymentIntentId (paymentDetails x) = Some piId)
            (orders (handlePaymentSuccess piId now s)) = Some ord'"
      and e: "if orderStatus ord = Pending
           then ord' = ord\<lparr>paymentDetails := paymentDetails ord', orderStatus := Confirmed,
                          timeline := timeline ord @ [confirmedEntry now]\<rparr>
           else ord' = ord\<lparr>paymentDetails := paymentDetails ord'\<rparr>"
      by blast
    have "orderStatus ord' = (if orderStatus ord = Pending then Confirmed else orderStatus ord)"
    proof (cases "orderStatus ord = Pending")
      case True
      with e have "ord' = ord\<lparr>paymentDetails := paymentDetails ord', orderStatus := Confirmed,
                          timeline := timeline ord @ [confirmedEntry now]\<rparr>" by simp
      then have "orderStatus ord' = Confirmed"
        by (metis order.select_convs(6) order.surjective order.update_convs(5,6,8))
      with True show ?thesis by simp
    next
      case False
      with e have "ord' = ord\<lparr>paymentDetails := paymentDetails ord'\<rparr>" by simp
      then have "orderStatus ord' = orderStatus ord"
        by (metis order.select_convs(6) order.surjective order.update_convs(5))
      with False show ?thesis by simp
    qed
    with f e show ?thesis by auto
  qed
qed

theorem payment_notification_frame_witness:
  "(\<exists>ord'. find (\<lambda>x. paymentIntentId (paymentDetails x) = Some ''pi_1'')
             (orders (handlePaymentFailed ''pi_1'' 5 (intentState Pending))) = Some ord' \<and>
           pstatus (paymentDetails ord') = PayFailed \<and> orderStatus ord' = Pending) \<and>
   (\<exists>ord'. find (\<lambda>x. paymentIntentId (paymentDetails x) = Some ''pi_1'')
             (orders (handlePaymentSuccess ''pi_1'' 5 (intentState Pending))) = Some ord' \<and>
           orderStatus ord' = Confirmed) \<and>
   (\<exists>ord'. find (\<lambda>x. paymentIntentId (paymentDetails x) = Some ''pi_1'')
             (orders (handlePaymentSuccess ''pi_1'' 5 (intentState Cancelled))) = Some ord' \<and>
           ord' = (intentOrder Cancelled)\<lparr>paymentDetails := paymentDetails ord'\<rparr> \<and>
           orderStatus ord' = Cancelled)"
proof -
  have f: "find (\<lambda>x. paymentIntentId (paymentDetails x) = Some ''pi_1'')
             (orders (intentState st)) = Some (intentOrder st)" for st
    by (simp add: intentState_def intentOrder_fields)
  from payment_notification_frame [OF f [of Pending], of 5]
  have a: "(\<exists>ord'. find (\<lambda>x. paymentIntentId (paymentDetails x) = Some ''pi_1'')
             (orders (handlePaymentFailed ''pi_1'' 5 (intentState Pending))) = Some ord' \<and>
           pstatus (paymentDetails ord') = PayFailed \<and> orderStatus ord' = Pending)"
    and b: "(\<exists>ord'. find (\<lambda>x. paymentIntentId (paymentDetails x) = Some ''pi_1'')
             (orders (handlePaymentSuccess ''pi_1'' 5 (intentState Pending))) = Some ord' \<and>
           orderStatus ord' = Confirmed)"
    by (auto simp: intentOrder_fields)
  from payment_notification_frame [OF f [of Cancelled], of 5]
  have c: "(\<exists>ord'. find (\<lambda>x. paymentIntentId (paymentDetails x) = Some ''pi_1'')
             (orders (handlePaymentSuccess ''pi_1'' 5 (intentState Cancelled))) = Some ord' \<and>
           ord' = (intentOrder Cancelled)\<lparr>paymentDetails := paymentDetails ord'\<rparr> \<and>
           orderStatus ord' = Cancelled)"
    by (auto simp: intentOrder_fields)
  show ?thesis using a b c by blast
qed

subsection \<open>Quick buy\<close>



text \<open>
  \<open>Order.create\<close> rejects the \<open>orderData\<close> of the quick-buy handler, which has no
  \<open>user\<close>; the handler answers 500 and has written nothing.
\<close>

lemma orderCreate_quickBuyOrderData:
  "orderCreate newId (quickBuyOrderData orderNumber pid productData qty pm) = None"
  by (simp add: orderCreate_def orderDataValid_def quickBuyOrderData_def)

lemma quickBuy_cases:
  "(\<exists>e. quickBuyChecks req s = Inl e \<and> quickBuy req orderNumber newId s = (Failure e, s)) \<or>
   (\<exists>pd. quickBuyChecks req s = Inr pd \<and>
      quickBuy req orderNumber newId s = (Failure ServerError, s))"
  by (cases "quickBuyChecks req s") (simp_all add: quickBuy_def orderCreate_quickBuyOrderData)

lemma quickBuy_state: "snd (quickBuy req orderNumber newId s) = s"
  using quickBuy_cases [of req s orderNumber newId] by auto





subsection \<open>Stock never negative\<close>

lemma set_saveFirst: "set (saveFirst P d xs) \<subseteq> insert d (set xs)"
  by (induction xs) auto

lemma sum_list_quantity_nonneg:
  "\<forall>i\<in>set its. 0 \<le> quantity i \<Longrightarrow> 0 \<le> (\<Sum>i\<leftarrow>filter Q its. quantity i)"
  by (induction its) auto

lemma cancelOrder_cases:
  "cancelOrder reqUser orderId rsn now s = (r, s') \<Longrightarrow>
   s' = s \<or>
   (\<exists>ord. find (\<lambda>x. oid x = orderId) (orders s) = Some ord \<and>
      r = Success (cancelledOrder reqUser rsn now ord) \<and>
      s' = s\<lparr>orders := saveFirst (\<lambda>x. oid x = orderId) (cancelledOrder reqUser rsn now ord)
                          (orders s),
               products := restoreStock (items ord) (products s)\<rparr>)"
  by (auto simp: cancelOrder_def cancelledOrder_def Let_def split: option.splits if_splits)

lemma cancelOrder_keeps_invariant:
  assumes "stockNonneg s" "ordersOk s"
  shows "stockNonneg (snd (cancelOrder reqUser orderId rsn now s)) \<and>
         ordersOk (snd (cancelOrder reqUser orderId rsn now s))"
proof (cases "cancelOrder reqUser orderId rsn now s")
  case (Pair r s')
  from cancelOrder_cases [OF Pair] show ?thesis
  proof
    assume "s' = s"
    with Pair assms show ?thesis by simp
  next
    assume "\<exists>ord. find (\<lambda>x. oid x = orderId) (orders s) = Some ord \<and>
      r = Success (cancelledOrder reqUser rsn now ord) \<and>
      s' = s\<lparr>orders := saveFirst (\<lambda>x. oid x = orderId) (cancelledOrder reqUser rsn now ord)
                          (orders s),
               products := restoreStock (items ord) (products s)\<rparr>"
    then obtain ord where f: "find (\<lambda>x. oid x = orderId) (orders s) = Some ord"
      and s': "s' = s\<lparr>orders := saveFirst (\<lambda>x. oid x = orderId)
                                  (cancelledOrder reqUser rsn now ord) (orders s),
               products := restoreStock (items ord) (products s)\<rparr>"
      by blast
    define ord' where "ord' = cancelledOrder reqUser rsn now ord"
    have i: "items ord' = items ord" by (simp add: ord'_def cancelledOrder_def)
    from f have mem: "ord \<in> set (orders s)"
      by (auto simp: find_Some_iff)
    with assms(2) have q: "\<forall>i\<in>set (items ord). 0 \<le> quantity i"
      by (auto simp: ordersOk_def)
    have st: "stockNonneg s'"
      unfolding stockNonneg_def
    proof (intro allI impI)
      fix pid p'
      assume "products s' pid = Some p'"
      then obtain p where p: "products s pid = Some p"
        and p': "stock_quantity p' = stock_quantity p +
                  (\<Sum>i\<leftarrow>filter (\<lambda>i. product i = pid) (items ord). quantity i)"
        by (auto simp: s' restoreStock_lookup)
      from assms(1) p have "0 \<le> stock_quantity p" by (auto simp: stockNonneg_def)
      with p' sum_list_quantity_nonneg [OF q, of "\<lambda>i. product i = pid"]
      show "0 \<le> stock_quantity p'" by simp
    qed
    have od: "ordersOk s'"
      unfolding ordersOk_def
    proof
      fix x assume "x \<in> set (orders s')"
      with set_saveFirst [of "\<lambda>x. oid x = orderId" ord' "orders s"]
      have "x = ord' \<or> x \<in> set (orders s)" by (auto simp: s' ord'_def)
      with assms(2) q i show "\<forall>i\<in>set (items x). 0 \<le> quantity i"
        by (auto simp: ordersOk_def)
    qed
    from st od Pair show ?thesis by simp
  qed
qed

lemma stockNonneg_orders_update [simp]: "stockNonneg (s\<lparr>orders := x\<rparr>) = stockNonneg s"
  by (simp add: stockNonneg_def)

lemma ordersOk_saveFirst:
  assumes "ordersOk s" and "find P (orders s) = Some ord" and "items d = items ord"
  shows "ordersOk (s\<lparr>orders := saveFirst P d (orders s)\<rparr>)"
proof -
  from assms(2) have "ord \<in> set (orders s)" by (auto simp: find_Some_iff)
  with assms(1,3) have "\<forall>i\<in>set (items d). 0 \<le> quantity i"
    by (auto simp: ordersOk_def)
  with assms(1) set_saveFirst [of P d "orders s"]
  show ?thesis by (auto simp: ordersOk_def)
qed

text \<open>
  The status route writes, if anything, the found order with the document
  \<open>updateStatus\<close> leaves.
\<close>

lemma updateOrderStatus_cases:
  "snd (updateOrderStatus req orderId now s) = s \<or>
   (\<exists>ord. find (\<lambda>x. oid x = orderId) (orders s) = Some ord \<and>
      (orderStatus ord, sr_status req) \<in> allowedPairs \<and>
      snd (updateOrderStatus req orderId now s) =
        s\<lparr>orders := saveFirst (\<lambda>x. oid x = orderId)
             (us_document (updateStatus (sr_status req) (sr_message req)
                             (Some (sr_user req)) now ord))
             (orders s)\<rparr>)"
proof (cases "sr_validationErrors req")
  case True
  then show ?thesis by (simp add: updateOrderStatus_def)
next
  case False
  show ?thesis
  proof (cases "find (\<lambda>x. oid x = orderId) (orders s)")
    case None
    with False show ?thesis by (simp add: updateOrderStatus_def)
  next
    case (Some ord)
    show ?thesis
    proof (cases "(orderStatus ord, sr_status req) \<in> allowedPairs")
      case True
      from updateOrderStatus_allowed [OF Some False True, of now] Some True
      show ?thesis by simp
    next
      case no: False
      from updateStatus_refused [OF no, of "sr_message req" "Some (sr_user req)" now]
        Some False
      show ?thesis by (simp add: updateOrderStatus_def Let_def)
    qed
  qed
qed

lemma updateStatus_items:
  "items (us_document (updateStatus st msg byUser now ord)) = items ord"
  by (cases st) (simp_all add: updateStatus_def addTimelineEntry_def Let_def)

lemma updateOrderStatus_keeps_invariant:
  assumes "stockNonneg s" "ordersOk s"
  shows "stockNonneg (snd (updateOrderStatus req orderId now s)) \<and>
         ordersOk (snd (updateOrderStatus req orderId now s))"
  using updateOrderStatus_cases [of req orderId now s] assms
  by (auto simp: updateStatus_items intro!: ordersOk_saveFirst)

lemma handlePaymentSuccess_keeps_invariant:
  assumes "stockNonneg s" "ordersOk s"
  shows "stockNonneg (handlePaymentSuccess piId now s) \<and>
         ordersOk (handlePaymentSuccess piId now s)"
proof (cases "find (\<lambda>x. paymentIntentId (paymentDetails x) = Some piId) (orders s)")
  case None
  with assms show ?thesis by (simp add: handlePaymentSuccess_def)
next
  case (Some ord)
  with assms show ?thesis
    by (auto simp: handlePaymentSuccess_def Let_def intro!: ordersOk_saveFirst)
qed

lemma handlePaymentFailed_keeps_invariant:
  assumes "stockNonneg s" "ordersOk s"
  shows "stockNonneg (handlePaymentFailed piId now s) \<and>
         ordersOk (handlePaymentFailed piId now s)"
proof (cases "find (\<lambda>x. paymentIntentId (paymentDetails x) = Some piId) (orders s)")
  case None
  with assms show ?thesis by (simp add: handlePaymentFailed_def)
next
  case (Some ord)
  with assms show ?thesis
    by (auto simp: handlePaymentFailed_def Let_def intro!: ordersOk_saveFirst)
qed

lemma handlePaymentCanceled_keeps_invariant:
  assumes "stockNonneg s" "ordersOk s"
  shows "stockNonneg (handlePaymentCanceled piId now s) \<and>
         ordersOk (handlePaymentCanceled piId now s)"
proof (cases "find (\<lambda>x. paymentIntentId (paymentDetails x) = Some piId) (orders s)")
  case None
  with assms show ?thesis by (simp add: handlePaymentCanceled_def)
next
  case (Some ord)
  with assms show ?thesis
    by (auto simp: handlePaymentCanceled_def Let_def intro!: ordersOk_saveFirst)
qed

lemma step_keeps_invariant:
  assumes "stockNonneg s" "ordersOk s"
  shows "stockNonneg (step op s) \<and> ordersOk (step op s)"
proof (cases op)
  case (PlaceOrder req newId now)
  with assms show ?thesis by (simp add: createOrder_state)
next
  case (CancelOrder reqUser orderId rsn now)
  with cancelOrder_keeps_invariant [OF assms] show ?thesis by simp
next
  case (QuickBuy req orderNumber newId)
  with assms show ?thesis by (simp add: quickBuy_state)
next
  case (UpdateStatus req orderId now)
  with updateOrderStatus_keeps_invariant [OF assms] show ?thesis by simp
next
  case (PaymentSucceeded piId now)
  with handlePaymentSuccess_keeps_invariant [OF assms] show ?thesis by simp
next
  case (PaymentFailed piId now)
  with handlePaymentFailed_keeps_invariant [OF assms] show ?thesis by simp
next
  case (PaymentCanceled piId now)
  with handlePaymentCanceled_keeps_invariant [OF assms] show ?thesis by simp
qed

lemma run_keeps_invariant:
  "stockNonneg s \<Longrightarrow> ordersOk s \<Longrightarrow> stockNonneg (run ops s) \<and> ordersOk (run ops s)"
proof (induction ops arbitrary: s)
  case Nil
  then show ?case by simp
next
  case (Cons op ops)
  from step_keeps_invariant [OF Cons.prems, of op]
  have "stockNonneg (step op s)" "ordersOk (step op s)" by simp_all
  from Cons.IH [OF this] show ?case by simp
qed

text \<open>
  Claim C3. Start from a state where every product's stock is non-negative (and no
  line of a stored order has a negative quantity, which the order item schema rules
  out). After any sequence of order placements and cancellations, also interleaved with
  quick-buy requests, status updates and payment notifications, every product's stock
  quantity is non-negative. Cancellation only adds the quantities of the order's lines
  to the stock. Order placement and quick buy change no stock: their decrements come
  after \<open>Order.create\<close>, which rejects the data either handler gives it.
\<close>

theorem stock_never_negative:
  assumes "stockNonneg s" and "ordersOk s"
    and "products (run ops s) pid = Some p"
  shows "0 \<le> stock_quantity p"
  using run_keeps_invariant [OF assms(1,2), of ops] assms(3)
  by (auto simp: stockNonneg_def)

text \<open>
  A store with 3 units in stock, a cart of 2 units and a pending order of 2 units: an
  order placement, a quick buy and the cancellation of the pending order leave 5 units.
\<close>

lemma demo_invariant: "stockNonneg busyState \<and> ordersOk busyState"
  by (simp add: stockNonneg_def ordersOk_def busyState_def demoProduct_def
      demoPlaced_fields demoItems_def)

lemma demo_run: "products (run demoOps busyState) 1 = Some (demoProduct 5 True)"
proof -
  have 1: "step (PlaceOrder demoRequest 2 5) busyState = busyState"
    by (simp add: createOrder_state)
  have 2: "step (QuickBuy (demoQuick 2199) ''QB1'' 3) busyState = busyState"
    by (simp add: quickBuy_state)
  have 3: "products (step (CancelOrder 7 1 None 6) busyState) 1 = Some (demoProduct 5 True)"
    by (simp add: cancelOrder_def busyState_def demoPlaced_fields demoItems_def incStock_def
        demoProduct_def Let_def)
  show ?thesis unfolding demoOps_def run.simps 1 2 by (rule 3)
qed

theorem stock_never_negative_witness:
  "stockNonneg busyState \<and> ordersOk busyState \<and>
   products (run demoOps busyState) 1 = Some (demoProduct 5 True) \<and>
   0 \<le> stock_quantity (demoProduct 5 True)"
  using stock_never_negative [of busyState demoOps 1 "demoProduct 5 True"]
    demo_invariant demo_run
  by simp

subsection \<open>The in-stock flag\<close>

lemma restoreStock_isInStock:
  "map_option stock_isInStock (restoreStock its ps pid) = map_option stock_isInStock (ps pid)"
  by (cases "ps pid") (simp_all add: restoreStock_lookup)

text \<open>
  Claim C9 does not hold of the code. The cancel route changes \<open>stock.quantity\<close> with
  \<open>$inc\<close> alone, which runs no \<open>save\<close> hook and does not write \<open>stock.isInStock\<close>:
  whatever the request, every product has the flag it had. So cancelling an order for a
  sold-out product restores its units and leaves the flag false, where the Product
  model's pre-save hook gives true; after that an order for those units is refused for
  insufficient stock.
\<close>

theorem cancelOrder_isInStock_stale:
  "map_option stock_isInStock (products (snd (cancelOrder reqUser orderId rsn now s)) pid) =
     map_option stock_isInStock (products s pid)"
proof (cases "cancelOrder reqUser orderId rsn now s")
  case (Pair r s')
  from cancelOrder_cases [OF Pair] Pair show ?thesis
    by (auto simp: restoreStock_isInStock)
qed

text \<open>
  The failing input: the owner cancels a pending order of 2 units of a product stored
  with quantity 0 and the flag false.
\<close>

theorem cancelOrder_isInStock_stale_witness:
  "map_option stock_quantity (products soldOutState 1) = Some 0 \<and>
   map_option stock_isInStock (products soldOutState 1) = Some False \<and>
   fst (cancelOrder 7 1 None 9 soldOutState) = Success (cancelledOrder 7 None 9 demoPlaced) \<and>
   map_option stock_quantity (products (snd (cancelOrder 7 1 None 9 soldOutState)) 1) = Some 2 \<and>
   map_option stock_isInStock (products (snd (cancelOrder 7 1 None 9 soldOutState)) 1) =
     Some False \<and>
   stock_isInStock (productPreSave (demoProduct 2 False)) \<and>
   fst (createOrder demoRequest 3 10
          ((snd (cancelOrder 7 1 None 9 soldOutState))\<lparr>carts := [7 \<mapsto> demoCart]\<rparr>)) =
     Failure (InsufficientStock ''Ganesh statue'' 2)"
proof -
  have c: "cancelOrder 7 1 None 9 soldOutState =
             (Success (cancelledOrder 7 None 9 demoPlaced),
              soldOutState\<lparr>orders := [cancelledOrder 7 None 9 demoPlaced],
                           products := [1 \<mapsto> demoProduct 2 False]\<rparr>)"
    by (simp add: cancelOrder_def cancelledOrder_def soldOutState_def demoPlaced_fields
        demoItems_def incStock_def demoProduct_def Let_def)
  have f: "map_option stock_isInStock (products soldOutState 1) = Some False"
    by (simp add: soldOutState_def demoProduct_def)
  have q: "map_option stock_quantity (products soldOutState 1) = Some 0"
    by (simp add: soldOutState_def demoProduct_def)
  have o: "fst (createOrder demoRequest 3 10
          ((snd (cancelOrder 7 1 None 9 soldOutState))\<lparr>carts := [7 \<mapsto> demoCart]\<rparr>)) =
     Failure (InsufficientStock ''Ganesh statue'' 2)"
    unfolding c
    by (simp add: createOrder_def prepareOrder_def demoRequest_def demoCart_def demoProduct_def
        soldOutState_def)
  from cancelOrder_isInStock_stale [of 7 1 None 9 soldOutState 1] f
  have "map_option stock_isInStock (products (snd (cancelOrder 7 1 None 9 soldOutState)) 1) =
     Some False" by simp
  with c f q o show ?thesis by (simp add: productPreSave_def demoProduct_def)
qed

subsection \<open>The timeline\<close>


lemma length_saveFirst [simp]: "length (saveFirst P d xs) = length xs"
  by (induction xs) auto
















end
